theory Spec2Isabelle
  imports Main "HOL-Library.Word" "HOL-Library.Char_ord" "HOL-Library.List_Lexorder"
begin

section \<open>Data model\<close>

subsection \<open>Scalar types\<close>

text \<open>
  \<open>int32_t\<close> and \<open>int64_t\<close> are machine words. A \<open>double\<close> is only ever copied by
  the code (never computed with), so it is carried as its 64-bit IEEE-754 pattern.
  A C \<open>int\<close> that holds an SQLite result code, a column kind, a column index or a
  parameter index is a HOL \<open>int\<close>: the code compares and increments these below
  the column or field count only, so no wrap-around can occur.
\<close>

type_synonym int32_t = "32 word"
type_synonym int64_t = "64 word"
type_synonym double = "64 word"

subsection \<open>The channel's value types\<close>

text \<open>
  \<open>flutter::EncodableValue\<close> (Windows) is a variant with fourteen alternatives.
  \<open>EncodableMap\<close> is a \<open>std::map\<close>; it is given as the list of its pairs in
  iteration order, and \<open>find\<close> is \<open>map_of\<close>.
\<close>

datatype EncodableValue =
    ENull
  | EBool bool
  | EInt32 int32_t
  | EInt64 int64_t
  | EDouble double
  | EString string
  | EUint8List "8 word list"
  | EInt32List "int32_t list"
  | EInt64List "int64_t list"
  | EDoubleList "double list"
  | EList "EncodableValue list"
  | EMap "(EncodableValue \<times> EncodableValue) list"
  | ECustom
  | EFloat32List "32 word list"

type_synonym EncodableList = "EncodableValue list"
type_synonym EncodableMap = "(EncodableValue \<times> EncodableValue) list"

text \<open>
  \<open>FlValue\<close> (Linux) is the GLib counterpart; its integer kind is always 64 bits wide.
  A map keeps its pairs in insertion order. A value of this type is alive with all
  its parts; the objects whose lifetime matters are those that \<open>Query\<close> creates,
  and they carry their reference count (see below).
\<close>

datatype FlValue =
    FlNull
  | FlBool bool
  | FlInt int64_t
  | FlFloat double
  | FlString string
  | FlUint8List "8 word list"
  | FlInt32List "int32_t list"
  | FlInt64List "int64_t list"
  | FlFloatList "double list"
  | FlList "FlValue list"
  | FlMap "(FlValue \<times> FlValue) list"
  | FlFloat32List "32 word list"
  | FlCustom

subsection \<open>The embedded SQL engine\<close>

text \<open>
  SQLite is a library, not code of this repository, so the engine is a parameter:
  a record of the entry points the code calls. \<open>'db\<close> is the state behind a
  \<open>sqlite3*\<close> connection handle, \<open>'st\<close> the state behind a \<open>sqlite3_stmt*\<close>.
  Every entry point that receives the connection may change it.
  \<open>sqlite3_close\<close> only releases the connection and has no field.
  \<open>sqlite3_column_name\<close> and \<open>sqlite3_column_text\<close> answer a C string, taken here as
  the characters it points to.
\<close>

record ('db, 'st) sqlite3 =
  sqlite3_open :: "string \<Rightarrow> int \<times> 'db option"
  sqlite3_exec :: "'db \<Rightarrow> string \<Rightarrow> 'db"
  sqlite3_prepare_v2 :: "'db \<Rightarrow> string \<Rightarrow> int \<times> 'db \<times> 'st"
  sqlite3_bind_text :: "'st \<Rightarrow> int \<Rightarrow> string \<Rightarrow> 'st"
  sqlite3_bind_int :: "'st \<Rightarrow> int \<Rightarrow> int32_t \<Rightarrow> 'st"
  sqlite3_bind_int64 :: "'st \<Rightarrow> int \<Rightarrow> int64_t \<Rightarrow> 'st"
  sqlite3_bind_double :: "'st \<Rightarrow> int \<Rightarrow> double \<Rightarrow> 'st"
  sqlite3_bind_null :: "'st \<Rightarrow> int \<Rightarrow> 'st"
  sqlite3_step :: "'db \<Rightarrow> 'st \<Rightarrow> int \<times> 'db \<times> 'st"
  sqlite3_finalize :: "'db \<Rightarrow> 'st \<Rightarrow> 'db"
  sqlite3_last_insert_rowid :: "'db \<Rightarrow> int64_t"
  sqlite3_changes :: "'db \<Rightarrow> int32_t"
  sqlite3_column_count :: "'st \<Rightarrow> int"
  sqlite3_column_name :: "'st \<Rightarrow> int \<Rightarrow> string"
  sqlite3_column_type :: "'st \<Rightarrow> int \<Rightarrow> int"
  sqlite3_column_int64 :: "'st \<Rightarrow> int \<Rightarrow> int64_t"
  sqlite3_column_double :: "'st \<Rightarrow> int \<Rightarrow> double"
  sqlite3_column_text :: "'st \<Rightarrow> int \<Rightarrow> string"

text \<open>The constants of \<open>sqlite3.h\<close> that the code names.\<close>

abbreviation SQLITE_OK :: int where "SQLITE_OK \<equiv> 0"
abbreviation SQLITE_ROW :: int where "SQLITE_ROW \<equiv> 100"
abbreviation SQLITE_DONE :: int where "SQLITE_DONE \<equiv> 101"
abbreviation SQLITE_INTEGER :: int where "SQLITE_INTEGER \<equiv> 1"
abbreviation SQLITE_FLOAT :: int where "SQLITE_FLOAT \<equiv> 2"
abbreviation SQLITE_TEXT :: int where "SQLITE_TEXT \<equiv> 3"
abbreviation SQLITE_NULL :: int where "SQLITE_NULL \<equiv> 5"

section \<open>DatabaseManager\<close>

text \<open>
  The class is the same on both platforms up to the value type of its arguments.
  A member \<open>x_\<close> of the source is the field \<open>x_m\<close> here (an Isabelle name cannot
  end in an underscore). \<open>database_m\<close> is \<open>None\<close> for \<open>nullptr\<close>, and otherwise
  holds the state of the connection the handle points to.
\<close>

record 'db DatabaseManager =
  database_path_m :: string
  database_m :: "'db option"

definition DatabaseManager_new :: "string \<Rightarrow> 'db DatabaseManager" where
  "DatabaseManager_new database_path =
     \<lparr>database_path_m = database_path, database_m = None\<rparr>"

definition Initialize ::
  "('db, 'st) sqlite3 \<Rightarrow> 'db DatabaseManager \<Rightarrow> bool \<times> 'db DatabaseManager" where
  "Initialize E dm =
     (case sqlite3_open E (database_path_m dm) of
        (result, handle) \<Rightarrow>
          if result \<noteq> SQLITE_OK then (False, dm\<lparr>database_m := handle\<rparr>)
          else (True,
                dm\<lparr>database_m := map_option (\<lambda>db. sqlite3_exec E db ''PRAGMA foreign_keys = ON'')
                                   handle\<rparr>))"

definition Close :: "'db DatabaseManager \<Rightarrow> 'db DatabaseManager" where
  "Close dm =
     (case database_m dm of
        Some db \<Rightarrow> dm\<lparr>database_m := None\<rparr>
      | None \<Rightarrow> dm)"

definition GetPrefixedTableName :: "string \<Rightarrow> string \<Rightarrow> string" where
  "GetPrefixedTableName table_name space = space @ ''_'' @ table_name"

text \<open>
  \<open>Update\<close> takes an argument list and never looks at it; the argument's type is
  \<open>EncodableList\<close> on Windows and \<open>FlValue\<close> on Linux.
\<close>

definition Update ::
  "('db, 'st) sqlite3 \<Rightarrow> 'db DatabaseManager \<Rightarrow> string \<Rightarrow> 'args
     \<Rightarrow> int32_t \<times> 'db DatabaseManager" where
  "Update E dm sql arguments =
     (case database_m dm of
        None \<Rightarrow> (0, dm)
      | Some db \<Rightarrow>
          (case sqlite3_prepare_v2 E db sql of
             (rc, db1, statement) \<Rightarrow>
               if rc \<noteq> SQLITE_OK then (0, dm\<lparr>database_m := Some db1\<rparr>)
               else
                 (case sqlite3_step E db1 statement of
                    (rc2, db2, statement2) \<Rightarrow>
                      let changes = sqlite3_changes E db2;
                          db3 = sqlite3_finalize E db2 statement2
                      in (changes, dm\<lparr>database_m := Some db3\<rparr>))))"

definition Delete ::
  "('db, 'st) sqlite3 \<Rightarrow> 'db DatabaseManager \<Rightarrow> string \<Rightarrow> 'args
     \<Rightarrow> int32_t \<times> 'db DatabaseManager" where
  "Delete E dm sql arguments = Update E dm sql arguments"

subsection \<open>Insert on Windows\<close>

text \<open>
  The first loop of \<open>Insert\<close> writes the column names and the placeholders into two
  string streams; \<open>first\<close> is the loop's flag. A key that is not a string
  contributes its separator and nothing else.
\<close>

fun Insert_columns :: "EncodableMap \<Rightarrow> bool \<Rightarrow> string \<Rightarrow> string \<Rightarrow> string \<times> string" where
  "Insert_columns [] first columns_stream placeholders_stream =
     (columns_stream, placeholders_stream)"
| "Insert_columns ((k, v) # rest) first columns_stream placeholders_stream =
     (let cs = (if \<not> first then columns_stream @ '', '' else columns_stream);
          ps = (if \<not> first then placeholders_stream @ '', '' else placeholders_stream)
      in case k of
           EString key \<Rightarrow> Insert_columns rest False (cs @ key) (ps @ ''?'')
         | _ \<Rightarrow> Insert_columns rest False cs ps)"

definition Insert_sql_windows :: "string \<Rightarrow> EncodableMap \<Rightarrow> string \<Rightarrow> string" where
  "Insert_sql_windows table_name data space =
     (let prefixed_table = GetPrefixedTableName table_name space
      in case Insert_columns data True [] [] of
           (columns, placeholders) \<Rightarrow>
             ''INSERT INTO '' @ prefixed_table @ '' ('' @ columns @ '') VALUES ('' @
             placeholders @ '')'')"

text \<open>The second loop binds one value per pair, at \<open>index\<close>, \<open>index + 1\<close>, ...\<close>

definition Insert_bind_value ::
  "('db, 'st) sqlite3 \<Rightarrow> 'st \<Rightarrow> int \<Rightarrow> EncodableValue \<Rightarrow> 'st" where
  "Insert_bind_value E statement index v =
     (case v of
        EString str_val \<Rightarrow> sqlite3_bind_text E statement index str_val
      | EInt32 int_val \<Rightarrow> sqlite3_bind_int E statement index int_val
      | EInt64 int64_val \<Rightarrow> sqlite3_bind_int64 E statement index int64_val
      | EDouble double_val \<Rightarrow> sqlite3_bind_double E statement index double_val
      | EBool bool_val \<Rightarrow> sqlite3_bind_int E statement index (if bool_val then 1 else 0)
      | _ \<Rightarrow> sqlite3_bind_null E statement index)"

fun Insert_bind :: "('db, 'st) sqlite3 \<Rightarrow> 'st \<Rightarrow> int \<Rightarrow> EncodableMap \<Rightarrow> 'st" where
  "Insert_bind E statement index [] = statement"
| "Insert_bind E statement index ((k, v) # rest) =
     Insert_bind E (Insert_bind_value E statement index v) (index + 1) rest"

definition Insert_windows ::
  "('db, 'st) sqlite3 \<Rightarrow> 'db DatabaseManager \<Rightarrow> string \<Rightarrow> EncodableMap \<Rightarrow> string
     \<Rightarrow> int64_t \<times> 'db DatabaseManager" where
  "Insert_windows E dm table_name data space =
     (case database_m dm of
        None \<Rightarrow> (- 1, dm)
      | Some db \<Rightarrow>
          (case sqlite3_prepare_v2 E db (Insert_sql_windows table_name data space) of
             (rc, db1, statement) \<Rightarrow>
               if rc \<noteq> SQLITE_OK then (- 1, dm\<lparr>database_m := Some db1\<rparr>)
               else
                 (case sqlite3_step E db1 (Insert_bind E statement 1 data) of
                    (result, db2, statement2) \<Rightarrow>
                      let db3 = sqlite3_finalize E db2 statement2
                      in if result \<noteq> SQLITE_DONE then (- 1, dm\<lparr>database_m := Some db3\<rparr>)
                         else (sqlite3_last_insert_rowid E db3,
                               dm\<lparr>database_m := Some db3\<rparr>))))"

subsection \<open>Insert on Linux\<close>

datatype FlValueType =
    FL_VALUE_TYPE_NULL
  | FL_VALUE_TYPE_BOOL
  | FL_VALUE_TYPE_INT
  | FL_VALUE_TYPE_FLOAT
  | FL_VALUE_TYPE_STRING
  | FL_VALUE_TYPE_UINT8_LIST
  | FL_VALUE_TYPE_INT32_LIST
  | FL_VALUE_TYPE_INT64_LIST
  | FL_VALUE_TYPE_FLOAT_LIST
  | FL_VALUE_TYPE_LIST
  | FL_VALUE_TYPE_MAP
  | FL_VALUE_TYPE_FLOAT32_LIST
  | FL_VALUE_TYPE_CUSTOM

fun fl_value_get_type :: "FlValue \<Rightarrow> FlValueType" where
  "fl_value_get_type FlNull = FL_VALUE_TYPE_NULL"
| "fl_value_get_type (FlBool b) = FL_VALUE_TYPE_BOOL"
| "fl_value_get_type (FlInt i) = FL_VALUE_TYPE_INT"
| "fl_value_get_type (FlFloat d) = FL_VALUE_TYPE_FLOAT"
| "fl_value_get_type (FlString s) = FL_VALUE_TYPE_STRING"
| "fl_value_get_type (FlUint8List xs) = FL_VALUE_TYPE_UINT8_LIST"
| "fl_value_get_type (FlInt32List xs) = FL_VALUE_TYPE_INT32_LIST"
| "fl_value_get_type (FlInt64List xs) = FL_VALUE_TYPE_INT64_LIST"
| "fl_value_get_type (FlFloatList xs) = FL_VALUE_TYPE_FLOAT_LIST"
| "fl_value_get_type (FlList xs) = FL_VALUE_TYPE_LIST"
| "fl_value_get_type (FlMap m) = FL_VALUE_TYPE_MAP"
| "fl_value_get_type (FlFloat32List xs) = FL_VALUE_TYPE_FLOAT32_LIST"
| "fl_value_get_type FlCustom = FL_VALUE_TYPE_CUSTOM"

definition Insert_sql_linux :: "string \<Rightarrow> string \<Rightarrow> string" where
  "Insert_sql_linux table_name space =
     (let prefixed_table = GetPrefixedTableName table_name space
      in ''INSERT INTO '' @ prefixed_table @ '' DEFAULT VALUES'')"

definition Insert_linux ::
  "('db, 'st) sqlite3 \<Rightarrow> 'db DatabaseManager \<Rightarrow> string \<Rightarrow> FlValue \<Rightarrow> string
     \<Rightarrow> int64_t \<times> 'db DatabaseManager" where
  "Insert_linux E dm table_name data space =
     (case database_m dm of
        None \<Rightarrow> (- 1, dm)
      | Some db \<Rightarrow>
          if fl_value_get_type data \<noteq> FL_VALUE_TYPE_MAP then (- 1, dm)
          else
            (case sqlite3_prepare_v2 E db (Insert_sql_linux table_name space) of
               (rc, db1, statement) \<Rightarrow>
                 if rc \<noteq> SQLITE_OK then (- 1, dm\<lparr>database_m := Some db1\<rparr>)
                 else
                   (case sqlite3_step E db1 statement of
                      (result, db2, statement2) \<Rightarrow>
                        let db3 = sqlite3_finalize E db2 statement2
                        in if result \<noteq> SQLITE_DONE then (- 1, dm\<lparr>database_m := Some db3\<rparr>)
                           else (sqlite3_last_insert_rowid E db3,
                                 dm\<lparr>database_m := Some db3\<rparr>))))"

subsection \<open>Query on Windows\<close>

text \<open>The \<open>switch\<close> on the column's runtime kind.\<close>

definition column_value_windows :: "('db, 'st) sqlite3 \<Rightarrow> 'st \<Rightarrow> int \<Rightarrow> EncodableValue" where
  "column_value_windows E statement i =
     (let column_type = sqlite3_column_type E statement i
      in if column_type = SQLITE_INTEGER then EInt64 (sqlite3_column_int64 E statement i)
         else if column_type = SQLITE_FLOAT then EDouble (sqlite3_column_double E statement i)
         else if column_type = SQLITE_TEXT then EString (sqlite3_column_text E statement i)
         else ENull)"

text \<open>
  \<open>row[key] = value\<close> on the row's \<open>std::map\<close>. Every key of a row is a string, so
  the map's order is the order of \<open>std::string\<close>: lexicographic on the bytes. The
  row is held with its bare string keys while it is built.
\<close>

fun row_assign ::
  "(string \<times> EncodableValue) list \<Rightarrow> string \<Rightarrow> EncodableValue
     \<Rightarrow> (string \<times> EncodableValue) list" where
  "row_assign [] k v = [(k, v)]"
| "row_assign ((k', v') # m) k v =
     (if k < k' then (k, v) # (k', v') # m
      else if k = k' then (k, v) # m
      else (k', v') # row_assign m k v)"

function Query_columns_windows ::
  "('db, 'st) sqlite3 \<Rightarrow> 'st \<Rightarrow> int \<Rightarrow> int \<Rightarrow> (string \<times> EncodableValue) list
     \<Rightarrow> (string \<times> EncodableValue) list" where
  "Query_columns_windows E statement i column_count row =
     (if i < column_count
      then Query_columns_windows E statement (i + 1) column_count
             (row_assign row (sqlite3_column_name E statement i)
                (column_value_windows E statement i))
      else row)"
  by pat_completeness auto
termination
  by (relation "measure (\<lambda>(E, statement, i, column_count, row). nat (column_count - i))") auto

declare Query_columns_windows.simps [simp del]

definition Query_row_windows :: "('db, 'st) sqlite3 \<Rightarrow> 'st \<Rightarrow> EncodableValue" where
  "Query_row_windows E statement =
     EMap (map (\<lambda>(k, v). (EString k, v))
             (Query_columns_windows E statement 0 (sqlite3_column_count E statement) []))"

text \<open>
  The \<open>while\<close> loop runs as long as the engine reports a row, which an engine may do
  for ever: \<open>None\<close> is the loop that does not return.
\<close>

partial_function (option) Query_rows_windows ::
  "('db, 'st) sqlite3 \<Rightarrow> 'db \<Rightarrow> 'st \<Rightarrow> EncodableList \<Rightarrow> (EncodableList \<times> 'db \<times> 'st) option" where
  "Query_rows_windows E db statement results =
     (case sqlite3_step E db statement of
        (rc, db', statement') \<Rightarrow>
          if rc = SQLITE_ROW
          then Query_rows_windows E db' statement' (results @ [Query_row_windows E statement'])
          else Some (results, db', statement'))"

definition Query_windows ::
  "('db, 'st) sqlite3 \<Rightarrow> 'db DatabaseManager \<Rightarrow> string
     \<Rightarrow> (EncodableList \<times> 'db DatabaseManager) option" where
  "Query_windows E dm sql =
     (case database_m dm of
        None \<Rightarrow> Some ([], dm)
      | Some db \<Rightarrow>
          (case sqlite3_prepare_v2 E db sql of
             (rc, db1, statement) \<Rightarrow>
               if rc \<noteq> SQLITE_OK then Some ([], dm\<lparr>database_m := Some db1\<rparr>)
               else
                 (case Query_rows_windows E db1 statement [] of
                    None \<Rightarrow> None
                  | Some (results, db2, statement2) \<Rightarrow>
                      Some (results,
                            dm\<lparr>database_m := Some (sqlite3_finalize E db2 statement2)\<rparr>))))"

subsection \<open>Query on Linux\<close>

definition column_value_linux :: "('db, 'st) sqlite3 \<Rightarrow> 'st \<Rightarrow> int \<Rightarrow> FlValue" where
  "column_value_linux E statement i =
     (let column_type = sqlite3_column_type E statement i
      in if column_type = SQLITE_INTEGER then FlInt (sqlite3_column_int64 E statement i)
         else if column_type = SQLITE_FLOAT then FlFloat (sqlite3_column_double E statement i)
         else if column_type = SQLITE_TEXT then FlString (sqlite3_column_text E statement i)
         else FlNull)"

text \<open>
  Outcomes of the Linux code that are not a value, because the behaviour of the C++
  is undefined: \<open>NullString\<close>, a \<open>std::string\<close> built from \<open>nullptr\<close>, and
  \<open>UseAfterFree\<close>, a released \<open>FlValue\<close> that is read.
\<close>

datatype fault = NullString | UseAfterFree

text \<open>
  \<open>Query\<close> creates \<open>FlValue\<close> objects, hands them to their container with a
  \<open>_take\<close> function, which adopts the pointer without adding a reference, and holds
  them in \<open>g_autoptr\<close> variables, which drop one reference when their scope ends.
  To follow the lifetime, an object that \<open>Query\<close> creates carries its reference
  count; \<open>Released\<close> is a pointer whose object has been freed. A row under
  construction is the list of the key and value pointers of its map.
\<close>

datatype 'a owned = Object nat 'a | Released

type_synonym FlRow = "(FlValue owned \<times> FlValue owned) list"

definition fl_value_new :: "'a \<Rightarrow> 'a owned" where
  "fl_value_new v = Object 1 v"

text \<open>
  \<open>fl_value_unref\<close> reads the reference count, so it faults on a released object.
  It leaves a count of zero alone, frees the object when the count falls to zero,
  and a map that is freed drops one reference of every key and value it holds.
\<close>

definition fl_value_unref :: "FlValue owned \<Rightarrow> fault + FlValue owned" where
  "fl_value_unref p =
     (case p of
        Released \<Rightarrow> Inl UseAfterFree
      | Object n v \<Rightarrow>
          if n = 0 then Inr (Object n v)
          else if n = 1 then Inr Released
          else Inr (Object (n - 1) v))"

fun fl_value_unref_entries :: "FlRow \<Rightarrow> fault + unit" where
  "fl_value_unref_entries [] = Inr ()"
| "fl_value_unref_entries ((k, v) # m) =
     (case (fl_value_unref k, fl_value_unref v) of
        (Inr k', Inr v') \<Rightarrow> fl_value_unref_entries m
      | other \<Rightarrow> Inl UseAfterFree)"

definition fl_value_unref_map :: "FlRow owned \<Rightarrow> fault + FlRow owned" where
  "fl_value_unref_map p =
     (case p of
        Released \<Rightarrow> Inl UseAfterFree
      | Object n entries \<Rightarrow>
          if n = 0 then Inr (Object n entries)
          else if n = 1
          then (case fl_value_unref_entries entries of
                  Inl f \<Rightarrow> Inl f
                | Inr u \<Rightarrow> Inr Released)
          else Inr (Object (n - 1) entries))"

text \<open>
  \<open>fl_value_set_take\<close> compares the new key with every key of the map until one is
  equal, reading each of them. The pair of an equal key is freed and replaced in
  place, a new key is appended. Next to the map the model returns the index at
  which the pair was stored: the caller's \<open>key\<close> and \<open>value\<close> still point there.
\<close>

fun fl_value_lookup_index :: "FlRow \<Rightarrow> FlValue \<Rightarrow> fault + nat option" where
  "fl_value_lookup_index [] key = Inr None"
| "fl_value_lookup_index ((k, v) # m) key =
     (case k of
        Released \<Rightarrow> Inl UseAfterFree
      | Object n kv \<Rightarrow>
          if kv = key then Inr (Some 0)
          else (case fl_value_lookup_index m key of
                  Inl f \<Rightarrow> Inl f
                | Inr None \<Rightarrow> Inr None
                | Inr (Some i) \<Rightarrow> Inr (Some (Suc i))))"

definition fl_value_set_take ::
  "FlRow \<Rightarrow> FlValue owned \<Rightarrow> FlValue owned \<Rightarrow> fault + FlRow \<times> nat" where
  "fl_value_set_take m key v =
     (case key of
        Released \<Rightarrow> Inl UseAfterFree
      | Object n kv \<Rightarrow>
          (case fl_value_lookup_index m kv of
             Inl f \<Rightarrow> Inl f
           | Inr None \<Rightarrow> Inr (m @ [(key, v)], length m)
           | Inr (Some i) \<Rightarrow>
               (case fl_value_unref_entries [m ! i] of
                  Inl f \<Rightarrow> Inl f
                | Inr u \<Rightarrow> Inr (m[i := (key, v)], i))))"

text \<open>
  The end of one turn of the column loop: the \<open>g_autoptr\<close> variables \<open>value\<close> and
  \<open>key\<close> go out of scope, which drops one reference of the two objects that the
  row holds at index \<open>i\<close>.
\<close>

definition autoptr_cleanup_pair :: "FlRow \<Rightarrow> nat \<Rightarrow> fault + FlRow" where
  "autoptr_cleanup_pair m i =
     (case (fl_value_unref (snd (m ! i)), fl_value_unref (fst (m ! i))) of
        (Inr v', Inr k') \<Rightarrow> Inr (m[i := (k', v')])
      | other \<Rightarrow> Inl UseAfterFree)"

function Query_columns_linux ::
  "('db, 'st) sqlite3 \<Rightarrow> 'st \<Rightarrow> int \<Rightarrow> int \<Rightarrow> FlRow \<Rightarrow> fault + FlRow" where
  "Query_columns_linux E statement i column_count row =
     (if i < column_count
      then (let key = fl_value_new (FlString (sqlite3_column_name E statement i));
                v = fl_value_new (column_value_linux E statement i)
            in case fl_value_set_take row key v of
                 Inl f \<Rightarrow> Inl f
               | Inr (row1, at) \<Rightarrow>
                   (case autoptr_cleanup_pair row1 at of
                      Inl f \<Rightarrow> Inl f
                    | Inr row2 \<Rightarrow> Query_columns_linux E statement (i + 1) column_count row2))
      else Inr row)"
  by pat_completeness auto
termination
  by (relation "measure (\<lambda>(E, statement, i, column_count, row). nat (column_count - i))") auto

declare Query_columns_linux.simps [simp del]

text \<open>
  One turn of the row loop creates the row's map with one reference, fills it,
  appends it to \<open>results\<close> with \<open>fl_value_append_take\<close>, and then lets the
  \<open>g_autoptr\<close> variable \<open>row\<close> go out of scope, which drops the one reference of the
  object that \<open>results\<close> now holds as its last element.
\<close>

definition fl_value_append_take :: "FlRow owned list \<Rightarrow> FlRow owned \<Rightarrow> FlRow owned list" where
  "fl_value_append_take results row = results @ [row]"

definition autoptr_cleanup_row :: "FlRow owned list \<Rightarrow> fault + FlRow owned list" where
  "autoptr_cleanup_row results =
     (case fl_value_unref_map (last results) of
        Inl f \<Rightarrow> Inl f
      | Inr row' \<Rightarrow> Inr (butlast results @ [row']))"

partial_function (option) Query_rows_linux ::
  "('db, 'st) sqlite3 \<Rightarrow> 'db \<Rightarrow> 'st \<Rightarrow> FlRow owned list
     \<Rightarrow> (fault + FlRow owned list \<times> 'db \<times> 'st) option" where
  "Query_rows_linux E db statement results =
     (case sqlite3_step E db statement of
        (rc, db', statement') \<Rightarrow>
          if rc = SQLITE_ROW
          then (case Query_columns_linux E statement' 0 (sqlite3_column_count E statement') [] of
                  Inl f \<Rightarrow> Some (Inl f)
                | Inr entries \<Rightarrow>
                    (case autoptr_cleanup_row
                            (fl_value_append_take results (fl_value_new entries)) of
                       Inl f \<Rightarrow> Some (Inl f)
                     | Inr results' \<Rightarrow> Query_rows_linux E db' statement' results'))
          else Some (Inr (results, db', statement')))"

text \<open>
  \<open>Query\<close> returns the list object, which is alive; its elements are the row
  pointers.
\<close>

definition Query_linux ::
  "('db, 'st) sqlite3 \<Rightarrow> 'db DatabaseManager \<Rightarrow> string
     \<Rightarrow> (fault + FlRow owned list \<times> 'db DatabaseManager) option" where
  "Query_linux E dm sql =
     (case database_m dm of
        None \<Rightarrow> Some (Inr ([], dm))
      | Some db \<Rightarrow>
          (case sqlite3_prepare_v2 E db sql of
             (rc, db1, statement) \<Rightarrow>
               if rc \<noteq> SQLITE_OK then Some (Inr ([], dm\<lparr>database_m := Some db1\<rparr>))
               else
                 (case Query_rows_linux E db1 statement [] of
                    None \<Rightarrow> None
                  | Some (Inl f) \<Rightarrow> Some (Inl f)
                  | Some (Inr (results, db2, statement2)) \<Rightarrow>
                      Some (Inr (results,
                                 dm\<lparr>database_m := Some (sqlite3_finalize E db2 statement2)\<rparr>)))))"

text \<open>
  The value that a reader finds behind a pointer \<open>Query\<close> returns. The reader is the
  channel's codec, which walks the whole answer when it is sent; a released row,
  key or value makes that a read of freed memory.
\<close>

fun fl_value_read_entries :: "FlRow \<Rightarrow> fault + (FlValue \<times> FlValue) list" where
  "fl_value_read_entries [] = Inr []"
| "fl_value_read_entries ((k, v) # m) =
     (case (k, v, fl_value_read_entries m) of
        (Object n kv, Object n' vv, Inr m') \<Rightarrow> Inr ((kv, vv) # m')
      | other \<Rightarrow> Inl UseAfterFree)"

fun fl_value_read_rows :: "FlRow owned list \<Rightarrow> fault + FlValue list" where
  "fl_value_read_rows [] = Inr []"
| "fl_value_read_rows (r # rs) =
     (case r of
        Released \<Rightarrow> Inl UseAfterFree
      | Object n entries \<Rightarrow>
          (case (fl_value_read_entries entries, fl_value_read_rows rs) of
             (Inr m, Inr vs) \<Rightarrow> Inr (FlMap m # vs)
           | other \<Rightarrow> Inl UseAfterFree))"

section \<open>The Windows plugin\<close>

record 'db LocalStorageCacheWindowsPlugin =
  database_manager_m :: "'db DatabaseManager option"

record MethodCall =
  method_name :: string
  call_arguments :: EncodableValue

text \<open>
  What the handler reports through \<open>result\<close>: \<open>Success\<close> with or without a value,
  \<open>Error\<close> with its code and message, or \<open>NotImplemented\<close>.
\<close>

datatype MethodResult =
    Success "EncodableValue option"
  | Error string string
  | NotImplemented

text \<open>
  The branches of \<open>HandleMethodCall\<close>, one definition for each method name.
  \<open>initialize\<close> replaces the manager; the one it replaces is destroyed, which closes
  its handle. \<open>close\<close> calls \<open>Close\<close> and then drops the manager, so the closed manager
  is not kept.
\<close>

definition HandleMethodCall_initialize ::
  "('db, 'st) sqlite3 \<Rightarrow> 'db LocalStorageCacheWindowsPlugin \<Rightarrow> EncodableValue
     \<Rightarrow> 'db LocalStorageCacheWindowsPlugin \<times> MethodResult" where
  "HandleMethodCall_initialize E self args =
     (case args of
        EMap arguments \<Rightarrow>
          (case map_of arguments (EString ''databasePath'') of
             None \<Rightarrow> (self, Error ''INVALID_ARGS'' ''databasePath is required'')
           | Some (EString database_path) \<Rightarrow>
               (case Initialize E (DatabaseManager_new database_path) of
                  (ok, dm) \<Rightarrow>
                    (self\<lparr>database_manager_m := Some dm\<rparr>,
                     if ok then Success None
                     else Error ''INIT_ERROR'' ''Failed to initialize database''))
           | Some _ \<Rightarrow> (self, Error ''INVALID_ARGS'' ''databasePath must be a string''))
      | _ \<Rightarrow> (self, Error ''INVALID_ARGS'' ''Invalid arguments''))"

definition HandleMethodCall_close ::
  "'db LocalStorageCacheWindowsPlugin
     \<Rightarrow> 'db LocalStorageCacheWindowsPlugin \<times> MethodResult" where
  "HandleMethodCall_close self =
     (case database_manager_m self of
        Some dm \<Rightarrow>
          (let closed = Close dm
           in (self\<lparr>database_manager_m := None\<rparr>, Success None))
      | None \<Rightarrow> (self, Success None))"

definition HandleMethodCall_insert ::
  "('db, 'st) sqlite3 \<Rightarrow> 'db LocalStorageCacheWindowsPlugin \<Rightarrow> EncodableValue
     \<Rightarrow> 'db LocalStorageCacheWindowsPlugin \<times> MethodResult" where
  "HandleMethodCall_insert E self args =
     (case database_manager_m self of
        None \<Rightarrow> (self, Error ''NOT_INITIALIZED'' ''Database not initialized'')
      | Some dm \<Rightarrow>
          (case args of
             EMap arguments \<Rightarrow>
               (let table_name_it = map_of arguments (EString ''tableName'');
                    data_it = map_of arguments (EString ''data'');
                    space_it = map_of arguments (EString ''space'')
                in if table_name_it = None \<or> data_it = None
                   then (self, Error ''INVALID_ARGS'' ''tableName and data are required'')
                   else
                     (let space_str = (case space_it of
                                         Some (EString space) \<Rightarrow> space
                                       | _ \<Rightarrow> ''default'')
                      in case (table_name_it, data_it) of
                           (Some (EString table_name), Some (EMap data)) \<Rightarrow>
                             (case Insert_windows E dm table_name data space_str of
                                (row_id, dm') \<Rightarrow>
                                  (self\<lparr>database_manager_m := Some dm'\<rparr>,
                                   if 0 \<le> sint row_id then Success (Some (EInt64 row_id))
                                   else Error ''INSERT_ERROR'' ''Failed to insert data''))
                         | _ \<Rightarrow> (self, Error ''INVALID_ARGS'' ''Invalid argument types'')))
           | _ \<Rightarrow> (self, Error ''INVALID_ARGS'' ''Invalid arguments'')))"

definition HandleMethodCall_query ::
  "('db, 'st) sqlite3 \<Rightarrow> 'db LocalStorageCacheWindowsPlugin \<Rightarrow> EncodableValue
     \<Rightarrow> ('db LocalStorageCacheWindowsPlugin \<times> MethodResult) option" where
  "HandleMethodCall_query E self args =
     (case database_manager_m self of
        None \<Rightarrow> Some (self, Error ''NOT_INITIALIZED'' ''Database not initialized'')
      | Some dm \<Rightarrow>
          (case args of
             EMap arguments \<Rightarrow>
               (case map_of arguments (EString ''sql'') of
                  None \<Rightarrow> Some (self, Error ''INVALID_ARGS'' ''sql is required'')
                | Some (EString sql) \<Rightarrow>
                    (case Query_windows E dm sql of
                       None \<Rightarrow> None
                     | Some (query_result, dm') \<Rightarrow>
                         Some (self\<lparr>database_manager_m := Some dm'\<rparr>,
                               Success (Some (EList query_result))))
                | Some _ \<Rightarrow> Some (self, Error ''INVALID_ARGS'' ''sql must be a string''))
           | _ \<Rightarrow> Some (self, Error ''INVALID_ARGS'' ''Invalid arguments'')))"

definition HandleMethodCall_saveSecureKey ::
  "'db LocalStorageCacheWindowsPlugin \<Rightarrow> EncodableValue
     \<Rightarrow> 'db LocalStorageCacheWindowsPlugin \<times> MethodResult" where
  "HandleMethodCall_saveSecureKey self args =
     (case args of
        EMap arguments \<Rightarrow>
          if map_of arguments (EString ''key'') = None \<or>
             map_of arguments (EString ''value'') = None
          then (self, Error ''INVALID_ARGS'' ''key and value are required'')
          else (self, Success None)
      | _ \<Rightarrow> (self, Error ''INVALID_ARGS'' ''Invalid arguments''))"

definition HandleMethodCall ::
  "('db, 'st) sqlite3 \<Rightarrow> 'db LocalStorageCacheWindowsPlugin \<Rightarrow> MethodCall
     \<Rightarrow> ('db LocalStorageCacheWindowsPlugin \<times> MethodResult) option" where
  "HandleMethodCall E self method_call =
     (if method_name method_call = ''initialize''
      then Some (HandleMethodCall_initialize E self (call_arguments method_call))
      else if method_name method_call = ''close''
      then Some (HandleMethodCall_close self)
      else if method_name method_call = ''insert''
      then Some (HandleMethodCall_insert E self (call_arguments method_call))
      else if method_name method_call = ''query''
      then HandleMethodCall_query E self (call_arguments method_call)
      else if method_name method_call = ''saveSecureKey''
      then Some (HandleMethodCall_saveSecureKey self (call_arguments method_call))
      else if method_name method_call = ''isBiometricAvailable''
      then Some (self, Success (Some (EBool False)))
      else Some (self, NotImplemented))"

section \<open>The Linux plugin\<close>

record 'db LocalStorageCacheLinuxPlugin =
  database_manager :: "'db DatabaseManager option"

record FlMethodCall =
  fl_method_call_get_name :: string
  fl_method_call_get_args :: FlValue

datatype FlMethodResponse =
    fl_method_success_response_new "FlValue option"
  | fl_method_error_response_new string string
  | fl_method_not_implemented_response_new

text \<open>
  \<open>fl_value_lookup_string\<close> answers \<open>nullptr\<close> for a value that is not a map and for
  a key that is absent; \<open>fl_value_get_string\<close> answers \<open>nullptr\<close> for a value that
  is not a string. The handler turns what \<open>fl_value_get_string\<close> answers into a
  \<open>std::string\<close> without a check; from \<open>nullptr\<close> that is undefined behaviour,
  the fault \<open>NullString\<close>. The handler's outcome for \<open>query\<close> is the answer as
  the channel reads it when the answer is sent.
\<close>

definition fl_value_lookup_string :: "FlValue \<Rightarrow> string \<Rightarrow> FlValue option" where
  "fl_value_lookup_string self key =
     (case self of FlMap m \<Rightarrow> map_of m (FlString key) | _ \<Rightarrow> None)"

definition fl_value_get_string :: "FlValue \<Rightarrow> string option" where
  "fl_value_get_string self = (case self of FlString s \<Rightarrow> Some s | _ \<Rightarrow> None)"

definition handle_method_call_initialize ::
  "('db, 'st) sqlite3 \<Rightarrow> 'db LocalStorageCacheLinuxPlugin \<Rightarrow> FlValue
     \<Rightarrow> fault + 'db LocalStorageCacheLinuxPlugin \<times> FlMethodResponse" where
  "handle_method_call_initialize E self args =
     (case fl_value_lookup_string args ''databasePath'' of
        None \<Rightarrow> Inr (self, fl_method_error_response_new ''INVALID_ARGS''
                              ''databasePath is required'')
      | Some database_path_value \<Rightarrow>
          (case fl_value_get_string database_path_value of
             None \<Rightarrow> Inl NullString
           | Some database_path \<Rightarrow>
               (case Initialize E (DatabaseManager_new database_path) of
                  (ok, dm) \<Rightarrow>
                    Inr (self\<lparr>database_manager := Some dm\<rparr>,
                         if ok then fl_method_success_response_new None
                         else fl_method_error_response_new ''INIT_ERROR''
                                ''Failed to initialize database''))))"

definition handle_method_call_close ::
  "'db LocalStorageCacheLinuxPlugin
     \<Rightarrow> 'db LocalStorageCacheLinuxPlugin \<times> FlMethodResponse" where
  "handle_method_call_close self =
     (case database_manager self of
        Some dm \<Rightarrow>
          (let closed = Close dm
           in (self\<lparr>database_manager := None\<rparr>, fl_method_success_response_new None))
      | None \<Rightarrow> (self, fl_method_success_response_new None))"

definition handle_method_call_insert ::
  "('db, 'st) sqlite3 \<Rightarrow> 'db LocalStorageCacheLinuxPlugin \<Rightarrow> FlValue
     \<Rightarrow> fault + 'db LocalStorageCacheLinuxPlugin \<times> FlMethodResponse" where
  "handle_method_call_insert E self args =
     (case database_manager self of
        None \<Rightarrow> Inr (self, fl_method_error_response_new ''NOT_INITIALIZED''
                              ''Database not initialized'')
      | Some dm \<Rightarrow>
          (let table_name_value = fl_value_lookup_string args ''tableName'';
               data_value = fl_value_lookup_string args ''data'';
               space_value = fl_value_lookup_string args ''space''
           in case (table_name_value, data_value) of
                (Some tnv, Some dv) \<Rightarrow>
                  (let table_name = fl_value_get_string tnv;
                       space = (case space_value of
                                  Some sv \<Rightarrow> fl_value_get_string sv
                                | None \<Rightarrow> Some ''default'')
                   in case (table_name, space) of
                        (Some table_name_str, Some space_str) \<Rightarrow>
                          (case Insert_linux E dm table_name_str dv space_str of
                             (row_id, dm') \<Rightarrow>
                               Inr (self\<lparr>database_manager := Some dm'\<rparr>,
                                    if 0 \<le> sint row_id
                                    then fl_method_success_response_new (Some (FlInt row_id))
                                    else fl_method_error_response_new ''INSERT_ERROR''
                                           ''Failed to insert data''))
                      | _ \<Rightarrow> Inl NullString)
              | _ \<Rightarrow> Inr (self, fl_method_error_response_new ''INVALID_ARGS''
                                  ''tableName and data are required'')))"

definition handle_method_call_query ::
  "('db, 'st) sqlite3 \<Rightarrow> 'db LocalStorageCacheLinuxPlugin \<Rightarrow> FlValue
     \<Rightarrow> (fault + 'db LocalStorageCacheLinuxPlugin \<times> FlMethodResponse) option" where
  "handle_method_call_query E self args =
     (case database_manager self of
        None \<Rightarrow> Some (Inr (self, fl_method_error_response_new ''NOT_INITIALIZED''
                                    ''Database not initialized''))
      | Some dm \<Rightarrow>
          (case fl_value_lookup_string args ''sql'' of
             None \<Rightarrow> Some (Inr (self, fl_method_error_response_new ''INVALID_ARGS''
                                         ''sql is required''))
           | Some sql_value \<Rightarrow>
               (case fl_value_get_string sql_value of
                  None \<Rightarrow> Some (Inl NullString)
                | Some sql \<Rightarrow>
                    (case Query_linux E dm sql of
                       None \<Rightarrow> None
                     | Some (Inl f) \<Rightarrow> Some (Inl f)
                     | Some (Inr (results, dm')) \<Rightarrow>
                         (case fl_value_read_rows results of
                            Inl f \<Rightarrow> Some (Inl f)
                          | Inr rows \<Rightarrow>
                              Some (Inr (self\<lparr>database_manager := Some dm'\<rparr>,
                                         fl_method_success_response_new
                                           (Some (FlList rows)))))))))"

definition handle_method_call ::
  "('db, 'st) sqlite3 \<Rightarrow> 'db LocalStorageCacheLinuxPlugin \<Rightarrow> FlMethodCall
     \<Rightarrow> (fault + 'db LocalStorageCacheLinuxPlugin \<times> FlMethodResponse) option" where
  "handle_method_call E self method_call =
     (let method = fl_method_call_get_name method_call;
          args = fl_method_call_get_args method_call
      in if method = ''initialize'' then Some (handle_method_call_initialize E self args)
         else if method = ''close'' then Some (Inr (handle_method_call_close self))
         else if method = ''insert'' then Some (handle_method_call_insert E self args)
         else if method = ''query'' then handle_method_call_query E self args
         else if method = ''isBiometricAvailable''
         then Some (Inr (self, fl_method_success_response_new (Some (FlBool False))))
         else Some (Inr (self, fl_method_not_implemented_response_new)))"

section \<open>The plugins as constructed\<close>

text \<open>
  Both constructors leave the manager pointer empty: this is the state before any
  \<open>initialize\<close>, and the one that \<open>close\<close> restores.
\<close>

definition LocalStorageCacheWindowsPlugin_new :: "'db LocalStorageCacheWindowsPlugin" where
  "LocalStorageCacheWindowsPlugin_new = \<lparr>database_manager_m = None\<rparr>"

definition local_storage_cache_linux_plugin_init :: "'db LocalStorageCacheLinuxPlugin" where
  "local_storage_cache_linux_plugin_init = \<lparr>database_manager = None\<rparr>"

section \<open>A recording engine\<close>

text \<open>
  To run the code on concrete inputs an engine is needed. This one is a small
  scripted stand-in for SQLite: a connection is the log of the statements that
  were stepped to their end, each with the parameters bound to it, and a statement
  carries its text, its bound parameters and the rows it has yet to report.
  It prepares a text that starts with one of the four verbs below and rejects every
  other. Two texts have rows: \<open>SELECT * FROM default_items\<close> has the two rows
  \<open>demo_rows\<close>, and \<open>SELECT 7 AS id, name AS id FROM default_items\<close> has the one
  row \<open>dup_rows\<close>, whose two columns share their name.
\<close>

datatype bound = BText string | BInt int32_t | BInt64 int64_t | BDouble double | BNull

datatype cell =
  Cell (cell_name: string) (cell_type: int) (cell_int64: int64_t) (cell_double: double)
    (cell_text: string)

record rec_db =
  executed :: "(string \<times> (int \<times> bound) list) list"

record rec_stmt =
  stmt_sql :: string
  stmt_bound :: "(int \<times> bound) list"
  stmt_pending :: "cell list list"
  stmt_current :: "cell list"

definition demo_rows :: "cell list list" where
  "demo_rows =
     [[Cell ''name'' 3 0 0 ''a'', Cell ''qty'' 1 3 0 [], Cell ''price'' 2 0 0x3FF8000000000000 [],
       Cell ''note'' 5 0 0 []],
      [Cell ''name'' 3 0 0 ''b'', Cell ''qty'' 1 7 0 [], Cell ''price'' 2 0 0x4000000000000000 [],
       Cell ''note'' 4 0 0 []]]"

definition dup_rows :: "cell list list" where
  "dup_rows = [[Cell ''id'' 1 7 0 [], Cell ''id'' 3 0 0 ''a'']]"

definition verb :: "string \<Rightarrow> string" where
  "verb sql = take 6 sql"

definition column_cell :: "rec_stmt \<Rightarrow> int \<Rightarrow> cell" where
  "column_cell st i =
     (case drop (nat i) (stmt_current st) of
        c # cs \<Rightarrow> c
      | [] \<Rightarrow> Cell [] 5 0 0 [])"

definition rec_prepare :: "rec_db \<Rightarrow> string \<Rightarrow> int \<times> rec_db \<times> rec_stmt" where
  "rec_prepare db sql =
     (if verb sql = ''INSERT'' \<or> verb sql = ''SELECT'' \<or> verb sql = ''UPDATE'' \<or>
         verb sql = ''DELETE''
      then (0, db,
            \<lparr>stmt_sql = sql, stmt_bound = [],
             stmt_pending =
               (if sql = ''SELECT * FROM default_items'' then demo_rows
                else if sql = ''SELECT 7 AS id, name AS id FROM default_items'' then dup_rows
                else []),
             stmt_current = []\<rparr>)
      else (1, db, \<lparr>stmt_sql = [], stmt_bound = [], stmt_pending = [], stmt_current = []\<rparr>))"

definition rec_bind :: "rec_stmt \<Rightarrow> int \<Rightarrow> bound \<Rightarrow> rec_stmt" where
  "rec_bind st i b = st\<lparr>stmt_bound := stmt_bound st @ [(i, b)]\<rparr>"

definition rec_step :: "rec_db \<Rightarrow> rec_stmt \<Rightarrow> int \<times> rec_db \<times> rec_stmt" where
  "rec_step db st =
     (case stmt_pending st of
        r # rs \<Rightarrow> (100, db, st\<lparr>stmt_pending := rs, stmt_current := r\<rparr>)
      | [] \<Rightarrow>
          (101, db\<lparr>executed := executed db @ [(stmt_sql st, stmt_bound st)]\<rparr>,
           st\<lparr>stmt_current := []\<rparr>))"

definition rec_changes :: "rec_db \<Rightarrow> int32_t" where
  "rec_changes db =
     (case rev (executed db) of
        [] \<Rightarrow> 0
      | (sql, bs) # older \<Rightarrow> if verb sql = ''SELECT'' then 0 else 1)"

definition recording_engine :: "(rec_db, rec_stmt) sqlite3" where
  "recording_engine =
     \<lparr>sqlite3_open = (\<lambda>path. if path = ''/'' then (14, Some \<lparr>executed = []\<rparr>)
                              else (0, Some \<lparr>executed = []\<rparr>)),
      sqlite3_exec = (\<lambda>db sql. db\<lparr>executed := executed db @ [(sql, [])]\<rparr>),
      sqlite3_prepare_v2 = rec_prepare,
      sqlite3_bind_text = (\<lambda>st i s. rec_bind st i (BText s)),
      sqlite3_bind_int = (\<lambda>st i n. rec_bind st i (BInt n)),
      sqlite3_bind_int64 = (\<lambda>st i n. rec_bind st i (BInt64 n)),
      sqlite3_bind_double = (\<lambda>st i d. rec_bind st i (BDouble d)),
      sqlite3_bind_null = (\<lambda>st i. rec_bind st i BNull),
      sqlite3_step = rec_step,
      sqlite3_finalize = (\<lambda>db st. db),
      sqlite3_last_insert_rowid =
        (\<lambda>db. of_nat (length (filter (\<lambda>(sql, bs). verb sql = ''INSERT'') (executed db)))),
      sqlite3_changes = rec_changes,
      sqlite3_column_count = (\<lambda>st. int (length (stmt_current st))),
      sqlite3_column_name = (\<lambda>st i. cell_name (column_cell st i)),
      sqlite3_column_type = (\<lambda>st i. cell_type (column_cell st i)),
      sqlite3_column_int64 = (\<lambda>st i. cell_int64 (column_cell st i)),
      sqlite3_column_double = (\<lambda>st i. cell_double (column_cell st i)),
      sqlite3_column_text = (\<lambda>st i. cell_text (column_cell st i))\<rparr>"

definition open_manager :: "rec_db DatabaseManager" where
  "open_manager = \<lparr>database_path_m = '':memory:'', database_m = Some \<lparr>executed = []\<rparr>\<rparr>"

definition open_windows_plugin :: "rec_db LocalStorageCacheWindowsPlugin" where
  "open_windows_plugin = \<lparr>database_manager_m = Some open_manager\<rparr>"

definition open_linux_plugin :: "rec_db LocalStorageCacheLinuxPlugin" where
  "open_linux_plugin = \<lparr>database_manager = Some open_manager\<rparr>"

text \<open>What the recording engine notes for a value that \<open>Insert\<close> binds on Windows.\<close>

definition bound_of :: "EncodableValue \<Rightarrow> bound" where
  "bound_of v =
     (case v of
        EString s \<Rightarrow> BText s
      | EInt32 n \<Rightarrow> BInt n
      | EInt64 n \<Rightarrow> BInt64 n
      | EDouble d \<Rightarrow> BDouble d
      | EBool b \<Rightarrow> BInt (if b then 1 else 0)
      | _ \<Rightarrow> BNull)"

section \<open>Notions the properties are stated with\<close>

text \<open>
  Any engine with a counter of the calls of \<open>sqlite3_step\<close> added to its connection
  state; every other entry point passes through.
\<close>

definition counting :: "('db, 'st) sqlite3 \<Rightarrow> ('db \<times> nat, 'st) sqlite3" where
  "counting E =
     \<lparr>sqlite3_open = (\<lambda>path. case sqlite3_open E path of
                                (rc, handle) \<Rightarrow> (rc, map_option (\<lambda>d. (d, 0)) handle)),
      sqlite3_exec = (\<lambda>(d, n) sql. (sqlite3_exec E d sql, n)),
      sqlite3_prepare_v2 = (\<lambda>(d, n) sql. case sqlite3_prepare_v2 E d sql of
                                (rc, d', st) \<Rightarrow> (rc, (d', n), st)),
      sqlite3_bind_text = sqlite3_bind_text E,
      sqlite3_bind_int = sqlite3_bind_int E,
      sqlite3_bind_int64 = sqlite3_bind_int64 E,
      sqlite3_bind_double = sqlite3_bind_double E,
      sqlite3_bind_null = sqlite3_bind_null E,
      sqlite3_step = (\<lambda>(d, n) st. case sqlite3_step E d st of
                                (rc, d', st') \<Rightarrow> (rc, (d', Suc n), st')),
      sqlite3_finalize = (\<lambda>(d, n) st. (sqlite3_finalize E d st, n)),
      sqlite3_last_insert_rowid = (\<lambda>(d, n). sqlite3_last_insert_rowid E d),
      sqlite3_changes = (\<lambda>(d, n). sqlite3_changes E d),
      sqlite3_column_count = sqlite3_column_count E,
      sqlite3_column_name = sqlite3_column_name E,
      sqlite3_column_type = sqlite3_column_type E,
      sqlite3_column_int64 = sqlite3_column_int64 E,
      sqlite3_column_double = sqlite3_column_double E,
      sqlite3_column_text = sqlite3_column_text E\<rparr>"

text \<open>A record with field names: the map that \<open>Insert\<close> receives when every key is a string.\<close>

definition string_keys :: "(string \<times> EncodableValue) list \<Rightarrow> EncodableMap" where
  "string_keys R = map (\<lambda>(k, v). (EString k, v)) R"

fun join :: "string \<Rightarrow> string list \<Rightarrow> string" where
  "join sep [] = []"
| "join sep [x] = x"
| "join sep (x # y # ys) = x @ sep @ join sep (y # ys)"


section \<open>Properties\<close>

lemmas rec_defs = recording_engine_def open_manager_def rec_prepare_def verb_def rec_step_def
  rec_changes_def rec_bind_def

subsection \<open>Update and Delete\<close>

text \<open>
  C8: with an open handle, \<open>Update\<close> prepares the text and, if that succeeds, steps
  the statement once and returns what \<open>sqlite3_changes\<close> reports for the connection
  after that one step; if preparation fails it returns zero. Its result is a count
  and the manager, so no error text reaches the caller. On any engine with a step
  counter the counter grows by exactly one when the statement was prepared, and not
  at all when it was not: there is no second step, no batch and no retry.
\<close>

theorem Update_single_step:
  assumes "database_m dm = Some db"
    and "sqlite3_prepare_v2 E db sql = (rc, db1, statement)"
    and "sqlite3_step E db1 statement = (rc2, db2, statement2)"
  shows "Update E dm sql arguments =
           (if rc \<noteq> SQLITE_OK then (0, dm\<lparr>database_m := Some db1\<rparr>)
            else (sqlite3_changes E db2,
                  dm\<lparr>database_m := Some (sqlite3_finalize E db2 statement2)\<rparr>)) \<and>
         map_option snd (database_m (snd (Update (counting E)
             \<lparr>database_path_m = database_path_m dm, database_m = Some (db, n)\<rparr> sql arguments))) =
           Some (if rc \<noteq> SQLITE_OK then n else Suc n)"
  using assms by (simp add: Update_def counting_def)

theorem Update_single_step_witness:
  "database_m open_manager = Some \<lparr>executed = []\<rparr> \<and>
   sqlite3_prepare_v2 recording_engine \<lparr>executed = []\<rparr> ''DELETE FROM default_items'' =
     (0, \<lparr>executed = []\<rparr>,
      \<lparr>stmt_sql = ''DELETE FROM default_items'', stmt_bound = [], stmt_pending = [],
       stmt_current = []\<rparr>) \<and>
   sqlite3_step recording_engine \<lparr>executed = []\<rparr>
      \<lparr>stmt_sql = ''DELETE FROM default_items'', stmt_bound = [], stmt_pending = [],
       stmt_current = []\<rparr> =
     (101, \<lparr>executed = [(''DELETE FROM default_items'', [])]\<rparr>,
      \<lparr>stmt_sql = ''DELETE FROM default_items'', stmt_bound = [], stmt_pending = [],
       stmt_current = []\<rparr>) \<and>
   Update recording_engine open_manager ''DELETE FROM default_items'' [EInt64 3] =
     (1, open_manager\<lparr>database_m := Some \<lparr>executed = [(''DELETE FROM default_items'', [])]\<rparr>\<rparr>)"
proof -
  let ?st = "\<lparr>stmt_sql = ''DELETE FROM default_items'', stmt_bound = [], stmt_pending = [],
       stmt_current = []\<rparr>"
  have h1: "database_m open_manager = Some \<lparr>executed = []\<rparr>"
    by (simp add: open_manager_def)
  have h2: "sqlite3_prepare_v2 recording_engine \<lparr>executed = []\<rparr> ''DELETE FROM default_items'' =
     (0, \<lparr>executed = []\<rparr>, ?st)"
    by (simp add: rec_defs)
  have h3: "sqlite3_step recording_engine \<lparr>executed = []\<rparr> ?st =
     (101, \<lparr>executed = [(''DELETE FROM default_items'', [])]\<rparr>, ?st)"
    by (simp add: rec_defs)
  from Update_single_step [OF h1 h2 h3, of "[EInt64 3]" 0] h1 h2 h3
  show ?thesis
    by (simp add: rec_defs)
qed

text \<open>
  C9: \<open>Delete\<close> returns the same count and leaves the same manager (and with it the
  same connection state) as \<open>Update\<close>, on Windows' \<open>EncodableList\<close> arguments and on
  Linux' \<open>FlValue\<close> argument.
\<close>

theorem Delete_is_Update:
  "Delete E dm sql (arguments :: EncodableList) = Update E dm sql arguments \<and>
   Delete E dm sql (fl_arguments :: FlValue) = Update E dm sql fl_arguments"
  by (simp add: Delete_def)

text \<open>
  C10: \<open>Update\<close> and \<open>Delete\<close> do not bind their arguments: for the same engine,
  manager and text, two argument lists give the same count and the same resulting
  manager and connection state.
\<close>

theorem Update_ignores_arguments:
  "Update E dm sql (a1 :: EncodableList) = Update E dm sql (a2 :: EncodableList) \<and>
   Delete E dm sql a1 = Delete E dm sql a2 \<and>
   Update E dm sql (f1 :: FlValue) = Update E dm sql (f2 :: FlValue) \<and>
   Delete E dm sql f1 = Delete E dm sql f2"
  by (simp add: Update_def Delete_def)

subsection \<open>The handle's two states\<close>

lemma HandleMethodCall_close_state:
  "HandleMethodCall E self \<lparr>method_name = ''close'', call_arguments = a\<rparr> =
     Some (LocalStorageCacheWindowsPlugin_new, Success None)"
  by (cases self)
     (simp add: HandleMethodCall_def HandleMethodCall_close_def
       LocalStorageCacheWindowsPlugin_new_def split: option.splits)

lemma handle_method_call_close_state:
  "handle_method_call E self \<lparr>fl_method_call_get_name = ''close'', fl_method_call_get_args = a\<rparr> =
     Some (Inr (local_storage_cache_linux_plugin_init, fl_method_success_response_new None))"
  by (cases self)
     (simp add: handle_method_call_def handle_method_call_close_def
       local_storage_cache_linux_plugin_init_def split: option.splits)

text \<open>
  C7: on both platforms \<open>close\<close> answers success from every state, whatever its
  arguments, and leaves the plugin in the state it was constructed in (no manager,
  hence no handle); a second \<open>close\<close>, or a \<open>close\<close> before any \<open>initialize\<close>,
  answers success again and changes nothing. \<open>DatabaseManager::Close\<close> itself
  leaves a null handle and is idempotent.
\<close>

theorem close_idempotent:
  "HandleMethodCall E self \<lparr>method_name = ''close'', call_arguments = a\<rparr> =
     Some (LocalStorageCacheWindowsPlugin_new, Success None) \<and>
   HandleMethodCall E LocalStorageCacheWindowsPlugin_new
       \<lparr>method_name = ''close'', call_arguments = a'\<rparr> =
     Some (LocalStorageCacheWindowsPlugin_new, Success None) \<and>
   handle_method_call E lself
       \<lparr>fl_method_call_get_name = ''close'', fl_method_call_get_args = b\<rparr> =
     Some (Inr (local_storage_cache_linux_plugin_init, fl_method_success_response_new None)) \<and>
   handle_method_call E local_storage_cache_linux_plugin_init
       \<lparr>fl_method_call_get_name = ''close'', fl_method_call_get_args = b'\<rparr> =
     Some (Inr (local_storage_cache_linux_plugin_init, fl_method_success_response_new None)) \<and>
   database_m (Close dm) = None \<and> Close (Close dm) = Close dm"
  by (simp add: HandleMethodCall_close_state handle_method_call_close_state Close_def
      split: option.splits)

text \<open>
  C4: in the Closed state, that is, in the plugin as constructed (before any
  \<open>initialize\<close>) and in the state that a \<open>close\<close> from any state leaves, \<open>insert\<close> and
  \<open>query\<close> answer the error \<open>NOT_INITIALIZED\<close> whatever their arguments, and the
  state stays Closed. The answer is reached before the manager is used: on Linux
  the outcome is a response (\<open>Inr\<close>), not a fault.
\<close>

theorem closed_not_initialized:
  "HandleMethodCall E LocalStorageCacheWindowsPlugin_new
       \<lparr>method_name = ''insert'', call_arguments = a\<rparr> =
     Some (LocalStorageCacheWindowsPlugin_new,
           Error ''NOT_INITIALIZED'' ''Database not initialized'') \<and>
   HandleMethodCall E LocalStorageCacheWindowsPlugin_new
       \<lparr>method_name = ''query'', call_arguments = a\<rparr> =
     Some (LocalStorageCacheWindowsPlugin_new,
           Error ''NOT_INITIALIZED'' ''Database not initialized'') \<and>
   (case HandleMethodCall E self \<lparr>method_name = ''close'', call_arguments = a0\<rparr> of
      None \<Rightarrow> None
    | Some (closed, r) \<Rightarrow>
        HandleMethodCall E closed \<lparr>method_name = ''insert'', call_arguments = a\<rparr>) =
     Some (LocalStorageCacheWindowsPlugin_new,
           Error ''NOT_INITIALIZED'' ''Database not initialized'') \<and>
   (case HandleMethodCall E self \<lparr>method_name = ''close'', call_arguments = a0\<rparr> of
      None \<Rightarrow> None
    | Some (closed, r) \<Rightarrow>
        HandleMethodCall E closed \<lparr>method_name = ''query'', call_arguments = a\<rparr>) =
     Some (LocalStorageCacheWindowsPlugin_new,
           Error ''NOT_INITIALIZED'' ''Database not initialized'') \<and>
   handle_method_call E local_storage_cache_linux_plugin_init
       \<lparr>fl_method_call_get_name = ''insert'', fl_method_call_get_args = b\<rparr> =
     Some (Inr (local_storage_cache_linux_plugin_init,
                fl_method_error_response_new ''NOT_INITIALIZED'' ''Database not initialized'')) \<and>
   handle_method_call E local_storage_cache_linux_plugin_init
       \<lparr>fl_method_call_get_name = ''query'', fl_method_call_get_args = b\<rparr> =
     Some (Inr (local_storage_cache_linux_plugin_init,
                fl_method_error_response_new ''NOT_INITIALIZED'' ''Database not initialized'')) \<and>
   (case handle_method_call E lself
           \<lparr>fl_method_call_get_name = ''close'', fl_method_call_get_args = b0\<rparr> of
      Some (Inr (closed, r)) \<Rightarrow>
        handle_method_call E closed
          \<lparr>fl_method_call_get_name = ''insert'', fl_method_call_get_args = b\<rparr>
    | other \<Rightarrow> None) =
     Some (Inr (local_storage_cache_linux_plugin_init,
                fl_method_error_response_new ''NOT_INITIALIZED'' ''Database not initialized'')) \<and>
   (case handle_method_call E lself
           \<lparr>fl_method_call_get_name = ''close'', fl_method_call_get_args = b0\<rparr> of
      Some (Inr (closed, r)) \<Rightarrow>
        handle_method_call E closed
          \<lparr>fl_method_call_get_name = ''query'', fl_method_call_get_args = b\<rparr>
    | other \<Rightarrow> None) =
     Some (Inr (local_storage_cache_linux_plugin_init,
                fl_method_error_response_new ''NOT_INITIALIZED'' ''Database not initialized''))"
  by (simp add: HandleMethodCall_close_state handle_method_call_close_state)
     (simp add: HandleMethodCall_def HandleMethodCall_insert_def HandleMethodCall_query_def
       handle_method_call_def handle_method_call_insert_def handle_method_call_query_def
       LocalStorageCacheWindowsPlugin_new_def local_storage_cache_linux_plugin_init_def)

subsection \<open>The INSERT statement\<close>

lemma join_Cons: "join sep (x # xs) = x @ concat (map (\<lambda>k. sep @ k) xs)"
  by (induction xs arbitrary: x) auto

lemma Insert_columns_rest:
  "Insert_columns (string_keys R) False cs ps =
     (cs @ concat (map (\<lambda>k. '', '' @ k) (map fst R)),
      ps @ concat (map (\<lambda>k. '', '' @ k) (replicate (length R) ''?'')))"
  by (induction R arbitrary: cs ps) (auto simp: string_keys_def)

lemma Insert_columns_join:
  "Insert_columns (string_keys R) True [] [] =
     (join '', '' (map fst R), join '', '' (replicate (length R) ''?''))"
proof (cases R)
  case Nil
  then show ?thesis by (simp add: string_keys_def)
next
  case (Cons r rs)
  obtain k v where r: "r = (k, v)" by (cases r)
  have "Insert_columns (string_keys R) True [] [] = Insert_columns (string_keys rs) False k ''?''"
    by (simp add: Cons r string_keys_def)
  then show ?thesis
    by (simp add: Insert_columns_rest Cons r join_Cons)
qed

lemma Insert_sql_windows_text:
  "Insert_sql_windows table_name (string_keys R) space =
     ''INSERT INTO '' @ space @ ''_'' @ table_name @ '' ('' @ join '', '' (map fst R) @
     '') VALUES ('' @ join '', '' (replicate (length R) ''?'') @ '')''"
  by (simp add: Insert_sql_windows_def Insert_columns_join GetPrefixedTableName_def)

text \<open>
  On any engine the second loop makes one bind call for each pair, in the map's
  order, with the indices \<open>i\<close>, \<open>i + 1\<close>, ...
\<close>

lemma Insert_bind_fold:
  "Insert_bind E st i data =
     fold (\<lambda>(j, v) s. Insert_bind_value E s j v)
       (zip [i..i + int (length data) - 1] (map snd data)) st"
proof (induction data arbitrary: st i)
  case Nil
  then show ?case by simp
next
  case (Cons p data)
  obtain k v where p: "p = (k, v)" by (cases p)
  have "[i..i + int (length data)] = i # [i + 1..i + int (length data)]"
    by (simp add: upto_rec1)
  then show ?case
    by (simp add: p Cons.IH)
qed

lemma Insert_bind_recorded:
  "Insert_bind recording_engine st i data =
     st\<lparr>stmt_bound := stmt_bound st @
          zip [i..i + int (length data) - 1] (map (bound_of \<circ> snd) data)\<rparr>"
proof (induction data arbitrary: st i)
  case Nil
  then show ?case by simp
next
  case (Cons p data)
  obtain k v where p: "p = (k, v)" by (cases p)
  have u: "[i..i + int (length data)] = i # [i + 1..i + int (length data)]"
    by (simp add: upto_rec1)
  have b: "Insert_bind_value recording_engine st i v =
             st\<lparr>stmt_bound := stmt_bound st @ [(i, bound_of v)]\<rparr>"
    by (cases v)
       (simp_all add: Insert_bind_value_def recording_engine_def rec_bind_def bound_of_def)
  show ?case
    by (simp add: p Cons.IH b u)
qed

lemma verb_insert: "verb (''INSERT INTO '' @ rest) = ''INSERT''"
  by (simp add: verb_def)

lemma Insert_windows_recorded_any:
  "Insert_windows recording_engine open_manager table_name data space =
     (1, open_manager\<lparr>database_m := Some \<lparr>executed =
        [(Insert_sql_windows table_name data space,
          zip [1..int (length data)] (map (bound_of \<circ> snd) data))]\<rparr>\<rparr>)"
proof -
  have "\<exists>rest. Insert_sql_windows table_name data space = ''INSERT INTO '' @ rest"
    by (cases "Insert_columns data True [] []") (simp add: Insert_sql_windows_def)
  then obtain rest where sql: "Insert_sql_windows table_name data space = ''INSERT INTO '' @ rest"
    by blast
  show ?thesis
    unfolding Insert_windows_def sql
    by (simp add: open_manager_def recording_engine_def rec_prepare_def verb_insert [simplified]
        Insert_bind_recorded [unfolded recording_engine_def] rec_step_def)
qed

text \<open>
  What \<open>Insert\<close> does on Windows for a record with field names, on the recording
  engine: one statement is executed; its text lists the field names and as many
  placeholders, in the record's order; the value of the field at position \<open>i\<close> is
  bound at index \<open>i\<close>.
\<close>

lemma Insert_windows_recorded:
  "Insert_windows recording_engine open_manager table_name (string_keys R) space =
     (1, open_manager\<lparr>database_m := Some \<lparr>executed =
        [(''INSERT INTO '' @ space @ ''_'' @ table_name @ '' ('' @ join '', '' (map fst R) @
          '') VALUES ('' @ join '', '' (replicate (length R) ''?'') @ '')'',
          zip [1..int (length R)] (map (bound_of \<circ> snd) R))]\<rparr>\<rparr>)"
proof -
  have m: "map (bound_of \<circ> snd) (string_keys R) = map (bound_of \<circ> snd) R"
    by (induction R) (auto simp: string_keys_def)
  have l: "length (string_keys R) = length R" by (simp add: string_keys_def)
  show ?thesis
    by (simp only: Insert_windows_recorded_any Insert_sql_windows_text m l)
qed

lemma Insert_linux_recorded:
  "Insert_linux recording_engine open_manager table_name (FlMap d) space =
     (1, open_manager\<lparr>database_m := Some \<lparr>executed =
        [(''INSERT INTO '' @ space @ ''_'' @ table_name @ '' DEFAULT VALUES'', [])]\<rparr>\<rparr>)"
  by (simp add: Insert_linux_def Insert_sql_linux_def GetPrefixedTableName_def open_manager_def
      recording_engine_def rec_prepare_def verb_insert [simplified] rec_step_def)

text \<open>
  C1: the Linux \<open>Insert\<close> does not do what the Windows \<open>Insert\<close> does. For the
  record \<open>{name: "a", qty: 3}\<close>, table \<open>items\<close> and space \<open>default\<close>, the statement
  that the Linux code has the engine execute names no column, has no placeholder
  and has no bound parameter; the Windows code, on the same record, executes a
  statement with the two columns, two placeholders and the two values bound at
  indices 1 and 2.
\<close>

theorem Insert_linux_drops_record:
  "Insert_linux recording_engine open_manager ''items''
     (FlMap [(FlString ''name'', FlString ''a''), (FlString ''qty'', FlInt 3)]) ''default'' =
     (1, open_manager\<lparr>database_m :=
            Some \<lparr>executed = [(''INSERT INTO default_items DEFAULT VALUES'', [])]\<rparr>\<rparr>) \<and>
   Insert_windows recording_engine open_manager ''items''
     [(EString ''name'', EString ''a''), (EString ''qty'', EInt64 3)] ''default'' =
     (1, open_manager\<lparr>database_m :=
            Some \<lparr>executed = [(''INSERT INTO default_items (name, qty) VALUES (?, ?)'',
                                 [(1, BText ''a''), (2, BInt64 3)])]\<rparr>\<rparr>)"
  by (simp add: Insert_linux_def Insert_sql_linux_def Insert_windows_def Insert_sql_windows_def
      GetPrefixedTableName_def Insert_bind_value_def rec_defs)

text \<open>On any engine the Linux \<open>Insert\<close> gives the same result for every two maps.\<close>

lemma Insert_linux_ignores_data:
  "Insert_linux E dm table_name (FlMap d1) space = Insert_linux E dm table_name (FlMap d2) space"
  by (simp add: Insert_linux_def split: option.splits)

subsection \<open>Table naming and the absence of validation\<close>

text \<open>
  C6: the physical table is the space, an underscore and the table name. For every
  table name \<open>t\<close> and space \<open>s\<close>, \<open>Insert\<close> has the engine prepare a text in which
  that name follows \<open>INSERT INTO\<close>, and what \<open>Insert\<close> returns is decided by what
  the engine answers for that very text; on the recording engine the statement
  that ends up executed is the one that names \<open>s_t\<close>. At the channel an \<open>insert\<close>
  call with the text \<open>s\<close> as its \<open>space\<close> calls \<open>Insert\<close> with \<open>s\<close>, and a call whose
  arguments have no \<open>space\<close> entry calls it with the space \<open>default\<close>, so that the
  statement names \<open>default_t\<close>. This holds on both platforms.
\<close>

theorem insert_targets_prefixed_table:
  "GetPrefixedTableName t s = s @ ''_'' @ t \<and>
   Insert_sql_windows t d s =
     ''INSERT INTO '' @ s @ ''_'' @ t @ '' ('' @ fst (Insert_columns d True [] []) @
     '') VALUES ('' @ snd (Insert_columns d True [] []) @ '')'' \<and>
   Insert_sql_linux t s = ''INSERT INTO '' @ s @ ''_'' @ t @ '' DEFAULT VALUES'' \<and>
   (database_m dm = Some db \<and>
    sqlite3_prepare_v2 E db
      (''INSERT INTO '' @ s @ ''_'' @ t @ '' ('' @ fst (Insert_columns d True [] []) @
       '') VALUES ('' @ snd (Insert_columns d True [] []) @ '')'') = (rc, db_p, st) \<and>
    sqlite3_step E db_p (Insert_bind E st 1 d) = (result, db_s, st_s) \<longrightarrow>
    Insert_windows E dm t d s =
      (if rc \<noteq> SQLITE_OK then (- 1, dm\<lparr>database_m := Some db_p\<rparr>)
       else if result \<noteq> SQLITE_DONE
       then (- 1, dm\<lparr>database_m := Some (sqlite3_finalize E db_s st_s)\<rparr>)
       else (sqlite3_last_insert_rowid E (sqlite3_finalize E db_s st_s),
             dm\<lparr>database_m := Some (sqlite3_finalize E db_s st_s)\<rparr>))) \<and>
   (database_m dm = Some db \<and>
    sqlite3_prepare_v2 E db (''INSERT INTO '' @ s @ ''_'' @ t @ '' DEFAULT VALUES'') =
      (lrc, ldb_p, lst) \<and>
    sqlite3_step E ldb_p lst = (lresult, ldb_s, lst_s) \<longrightarrow>
    Insert_linux E dm t (FlMap fm) s =
      (if lrc \<noteq> SQLITE_OK then (- 1, dm\<lparr>database_m := Some ldb_p\<rparr>)
       else if lresult \<noteq> SQLITE_DONE
       then (- 1, dm\<lparr>database_m := Some (sqlite3_finalize E ldb_s lst_s)\<rparr>)
       else (sqlite3_last_insert_rowid E (sqlite3_finalize E ldb_s lst_s),
             dm\<lparr>database_m := Some (sqlite3_finalize E ldb_s lst_s)\<rparr>))) \<and>
   Insert_windows recording_engine open_manager t d s =
     (1, open_manager\<lparr>database_m := Some \<lparr>executed =
        [(''INSERT INTO '' @ s @ ''_'' @ t @ '' ('' @ fst (Insert_columns d True [] []) @
          '') VALUES ('' @ snd (Insert_columns d True [] []) @ '')'',
          zip [1..int (length d)] (map (bound_of \<circ> snd) d))]\<rparr>\<rparr>) \<and>
   Insert_linux recording_engine open_manager t (FlMap fm) s =
     (1, open_manager\<lparr>database_m := Some \<lparr>executed =
        [(''INSERT INTO '' @ s @ ''_'' @ t @ '' DEFAULT VALUES'', [])]\<rparr>\<rparr>) \<and>
   (database_manager_m self = Some pdm \<and>
    map_of args (EString ''tableName'') = Some (EString t) \<and>
    map_of args (EString ''data'') = Some (EMap d) \<and>
    map_of args (EString ''space'') = Some (EString s) \<longrightarrow>
    HandleMethodCall E self \<lparr>method_name = ''insert'', call_arguments = EMap args\<rparr> =
      Some (case Insert_windows E pdm t d s of
              (row_id, dm') \<Rightarrow>
                (self\<lparr>database_manager_m := Some dm'\<rparr>,
                 if 0 \<le> sint row_id then Success (Some (EInt64 row_id))
                 else Error ''INSERT_ERROR'' ''Failed to insert data''))) \<and>
   (database_manager_m self = Some pdm \<and>
    map_of args_d (EString ''tableName'') = Some (EString t) \<and>
    map_of args_d (EString ''data'') = Some (EMap d) \<and>
    map_of args_d (EString ''space'') = None \<longrightarrow>
    HandleMethodCall E self \<lparr>method_name = ''insert'', call_arguments = EMap args_d\<rparr> =
      Some (case Insert_windows E pdm t d ''default'' of
              (row_id, dm') \<Rightarrow>
                (self\<lparr>database_manager_m := Some dm'\<rparr>,
                 if 0 \<le> sint row_id then Success (Some (EInt64 row_id))
                 else Error ''INSERT_ERROR'' ''Failed to insert data''))) \<and>
   (database_manager lself = Some pdm \<and>
    map_of fargs (FlString ''tableName'') = Some (FlString t) \<and>
    map_of fargs (FlString ''data'') = Some fd \<and>
    map_of fargs (FlString ''space'') = Some (FlString s) \<longrightarrow>
    handle_method_call E lself
        \<lparr>fl_method_call_get_name = ''insert'', fl_method_call_get_args = FlMap fargs\<rparr> =
      Some (case Insert_linux E pdm t fd s of
              (row_id, dm') \<Rightarrow>
                Inr (lself\<lparr>database_manager := Some dm'\<rparr>,
                     if 0 \<le> sint row_id then fl_method_success_response_new (Some (FlInt row_id))
                     else fl_method_error_response_new ''INSERT_ERROR''
                            ''Failed to insert data''))) \<and>
   (database_manager lself = Some pdm \<and>
    map_of fargs_d (FlString ''tableName'') = Some (FlString t) \<and>
    map_of fargs_d (FlString ''data'') = Some fd \<and>
    map_of fargs_d (FlString ''space'') = None \<longrightarrow>
    handle_method_call E lself
        \<lparr>fl_method_call_get_name = ''insert'', fl_method_call_get_args = FlMap fargs_d\<rparr> =
      Some (case Insert_linux E pdm t fd ''default'' of
              (row_id, dm') \<Rightarrow>
                Inr (lself\<lparr>database_manager := Some dm'\<rparr>,
                     if 0 \<le> sint row_id then fl_method_success_response_new (Some (FlInt row_id))
                     else fl_method_error_response_new ''INSERT_ERROR''
                            ''Failed to insert data'')))"
proof -
  have tw: "Insert_sql_windows t d s =
     ''INSERT INTO '' @ s @ ''_'' @ t @ '' ('' @ fst (Insert_columns d True [] []) @
     '') VALUES ('' @ snd (Insert_columns d True [] []) @ '')''"
    by (cases "Insert_columns d True [] []")
       (simp add: Insert_sql_windows_def GetPrefixedTableName_def)
  have tl: "Insert_sql_linux t s = ''INSERT INTO '' @ s @ ''_'' @ t @ '' DEFAULT VALUES''"
    by (simp add: Insert_sql_linux_def GetPrefixedTableName_def)
  have iw: "database_m dm = Some db \<and>
    sqlite3_prepare_v2 E db
      (''INSERT INTO '' @ s @ ''_'' @ t @ '' ('' @ fst (Insert_columns d True [] []) @
       '') VALUES ('' @ snd (Insert_columns d True [] []) @ '')'') = (rc, db_p, st) \<and>
    sqlite3_step E db_p (Insert_bind E st 1 d) = (result, db_s, st_s) \<longrightarrow>
    Insert_windows E dm t d s =
      (if rc \<noteq> SQLITE_OK then (- 1, dm\<lparr>database_m := Some db_p\<rparr>)
       else if result \<noteq> SQLITE_DONE
       then (- 1, dm\<lparr>database_m := Some (sqlite3_finalize E db_s st_s)\<rparr>)
       else (sqlite3_last_insert_rowid E (sqlite3_finalize E db_s st_s),
             dm\<lparr>database_m := Some (sqlite3_finalize E db_s st_s)\<rparr>))"
    unfolding Insert_windows_def tw by (simp add: Let_def)
  have il: "database_m dm = Some db \<and>
    sqlite3_prepare_v2 E db (''INSERT INTO '' @ s @ ''_'' @ t @ '' DEFAULT VALUES'') =
      (lrc, ldb_p, lst) \<and>
    sqlite3_step E ldb_p lst = (lresult, ldb_s, lst_s) \<longrightarrow>
    Insert_linux E dm t (FlMap fm) s =
      (if lrc \<noteq> SQLITE_OK then (- 1, dm\<lparr>database_m := Some ldb_p\<rparr>)
       else if lresult \<noteq> SQLITE_DONE
       then (- 1, dm\<lparr>database_m := Some (sqlite3_finalize E ldb_s lst_s)\<rparr>)
       else (sqlite3_last_insert_rowid E (sqlite3_finalize E ldb_s lst_s),
             dm\<lparr>database_m := Some (sqlite3_finalize E ldb_s lst_s)\<rparr>))"
    unfolding Insert_linux_def tl by (simp add: Let_def)
  have rw: "Insert_windows recording_engine open_manager t d s =
     (1, open_manager\<lparr>database_m := Some \<lparr>executed =
        [(''INSERT INTO '' @ s @ ''_'' @ t @ '' ('' @ fst (Insert_columns d True [] []) @
          '') VALUES ('' @ snd (Insert_columns d True [] []) @ '')'',
          zip [1..int (length d)] (map (bound_of \<circ> snd) d))]\<rparr>\<rparr>)"
    by (simp only: Insert_windows_recorded_any tw)
  have rl: "Insert_linux recording_engine open_manager t (FlMap fm) s =
     (1, open_manager\<lparr>database_m := Some \<lparr>executed =
        [(''INSERT INTO '' @ s @ ''_'' @ t @ '' DEFAULT VALUES'', [])]\<rparr>\<rparr>)"
    by (rule Insert_linux_recorded)
  have hw: "database_manager_m self = Some pdm \<and>
    map_of a (EString ''tableName'') = Some (EString t) \<and>
    map_of a (EString ''data'') = Some (EMap d) \<and>
    map_of a (EString ''space'') = sp \<longrightarrow>
    HandleMethodCall E self \<lparr>method_name = ''insert'', call_arguments = EMap a\<rparr> =
      Some (case Insert_windows E pdm t d
                   (case sp of Some (EString space) \<Rightarrow> space | _ \<Rightarrow> ''default'') of
              (row_id, dm') \<Rightarrow>
                (self\<lparr>database_manager_m := Some dm'\<rparr>,
                 if 0 \<le> sint row_id then Success (Some (EInt64 row_id))
                 else Error ''INSERT_ERROR'' ''Failed to insert data''))" for a sp
    by (simp add: HandleMethodCall_def HandleMethodCall_insert_def)
  have hl: "database_manager lself = Some pdm \<and>
    map_of a (FlString ''tableName'') = Some (FlString t) \<and>
    map_of a (FlString ''data'') = Some fd \<and>
    (map_of a (FlString ''space'') = Some (FlString sp) \<or>
     map_of a (FlString ''space'') = None \<and> sp = ''default'') \<longrightarrow>
    handle_method_call E lself
        \<lparr>fl_method_call_get_name = ''insert'', fl_method_call_get_args = FlMap a\<rparr> =
      Some (case Insert_linux E pdm t fd sp of
              (row_id, dm') \<Rightarrow>
                Inr (lself\<lparr>database_manager := Some dm'\<rparr>,
                     if 0 \<le> sint row_id then fl_method_success_response_new (Some (FlInt row_id))
                     else fl_method_error_response_new ''INSERT_ERROR''
                            ''Failed to insert data''))" for a sp
    by (auto simp: handle_method_call_def handle_method_call_insert_def
        fl_value_lookup_string_def fl_value_get_string_def)
  show ?thesis
  proof (intro conjI)
    show "GetPrefixedTableName t s = s @ ''_'' @ t"
      by (simp add: GetPrefixedTableName_def)
  qed (use tw tl iw il rw rl hw [of args "Some (EString s)"] hw [of args_d None]
         hl [of fargs s] hl [of fargs_d "''default''"] in simp_all)
qed

theorem insert_targets_prefixed_table_witness:
  "database_m open_manager = Some \<lparr>executed = []\<rparr> \<and>
   sqlite3_prepare_v2 recording_engine \<lparr>executed = []\<rparr>
       (''INSERT INTO '' @ ''shop'' @ ''_'' @ ''items'' @ '' ('' @
        fst (Insert_columns [(EString ''name'', EString ''a'')] True [] []) @ '') VALUES ('' @
        snd (Insert_columns [(EString ''name'', EString ''a'')] True [] []) @ '')'') =
     (SQLITE_OK, \<lparr>executed = []\<rparr>,
      \<lparr>stmt_sql = ''INSERT INTO shop_items (name) VALUES (?)'', stmt_bound = [],
       stmt_pending = [], stmt_current = []\<rparr>) \<and>
   sqlite3_step recording_engine \<lparr>executed = []\<rparr>
       (Insert_bind recording_engine
          \<lparr>stmt_sql = ''INSERT INTO shop_items (name) VALUES (?)'', stmt_bound = [],
           stmt_pending = [], stmt_current = []\<rparr> 1 [(EString ''name'', EString ''a'')]) =
     (SQLITE_DONE,
      \<lparr>executed = [(''INSERT INTO shop_items (name) VALUES (?)'', [(1, BText ''a'')])]\<rparr>,
      \<lparr>stmt_sql = ''INSERT INTO shop_items (name) VALUES (?)'', stmt_bound = [(1, BText ''a'')],
       stmt_pending = [], stmt_current = []\<rparr>) \<and>
   Insert_windows recording_engine open_manager ''items'' [(EString ''name'', EString ''a'')]
       ''shop'' =
     (1, open_manager\<lparr>database_m := Some \<lparr>executed =
           [(''INSERT INTO shop_items (name) VALUES (?)'', [(1, BText ''a'')])]\<rparr>\<rparr>) \<and>
   sqlite3_prepare_v2 recording_engine \<lparr>executed = []\<rparr>
       (''INSERT INTO '' @ ''shop'' @ ''_'' @ ''items'' @ '' DEFAULT VALUES'') =
     (SQLITE_OK, \<lparr>executed = []\<rparr>,
      \<lparr>stmt_sql = ''INSERT INTO shop_items DEFAULT VALUES'', stmt_bound = [],
       stmt_pending = [], stmt_current = []\<rparr>) \<and>
   sqlite3_step recording_engine \<lparr>executed = []\<rparr>
       \<lparr>stmt_sql = ''INSERT INTO shop_items DEFAULT VALUES'', stmt_bound = [],
        stmt_pending = [], stmt_current = []\<rparr> =
     (SQLITE_DONE, \<lparr>executed = [(''INSERT INTO shop_items DEFAULT VALUES'', [])]\<rparr>,
      \<lparr>stmt_sql = ''INSERT INTO shop_items DEFAULT VALUES'', stmt_bound = [],
       stmt_pending = [], stmt_current = []\<rparr>) \<and>
   Insert_linux recording_engine open_manager ''items''
       (FlMap [(FlString ''name'', FlString ''a'')]) ''shop'' =
     (1, open_manager\<lparr>database_m := Some \<lparr>executed =
           [(''INSERT INTO shop_items DEFAULT VALUES'', [])]\<rparr>\<rparr>) \<and>
   database_manager_m open_windows_plugin = Some open_manager \<and>
   map_of [(EString ''data'', EMap [(EString ''name'', EString ''a'')]),
           (EString ''space'', EString ''shop''),
           (EString ''tableName'', EString ''items'')] (EString ''tableName'') =
     Some (EString ''items'') \<and>
   map_of [(EString ''data'', EMap [(EString ''name'', EString ''a'')]),
           (EString ''space'', EString ''shop''),
           (EString ''tableName'', EString ''items'')] (EString ''data'') =
     Some (EMap [(EString ''name'', EString ''a'')]) \<and>
   map_of [(EString ''data'', EMap [(EString ''name'', EString ''a'')]),
           (EString ''space'', EString ''shop''),
           (EString ''tableName'', EString ''items'')] (EString ''space'') =
     Some (EString ''shop'') \<and>
   HandleMethodCall recording_engine open_windows_plugin
     \<lparr>method_name = ''insert'',
      call_arguments = EMap [(EString ''data'', EMap [(EString ''name'', EString ''a'')]),
                             (EString ''space'', EString ''shop''),
                             (EString ''tableName'', EString ''items'')]\<rparr> =
     Some (\<lparr>database_manager_m = Some (open_manager\<lparr>database_m := Some \<lparr>executed =
              [(''INSERT INTO shop_items (name) VALUES (?)'', [(1, BText ''a'')])]\<rparr>\<rparr>)\<rparr>,
           Success (Some (EInt64 1))) \<and>
   map_of [(EString ''data'', EMap [(EString ''name'', EString ''a'')]),
           (EString ''tableName'', EString ''items'')] (EString ''tableName'') =
     Some (EString ''items'') \<and>
   map_of [(EString ''data'', EMap [(EString ''name'', EString ''a'')]),
           (EString ''tableName'', EString ''items'')] (EString ''data'') =
     Some (EMap [(EString ''name'', EString ''a'')]) \<and>
   map_of [(EString ''data'', EMap [(EString ''name'', EString ''a'')]),
           (EString ''tableName'', EString ''items'')] (EString ''space'') = None \<and>
   HandleMethodCall recording_engine open_windows_plugin
     \<lparr>method_name = ''insert'',
      call_arguments = EMap [(EString ''data'', EMap [(EString ''name'', EString ''a'')]),
                             (EString ''tableName'', EString ''items'')]\<rparr> =
     Some (\<lparr>database_manager_m = Some (open_manager\<lparr>database_m := Some \<lparr>executed =
              [(''INSERT INTO default_items (name) VALUES (?)'', [(1, BText ''a'')])]\<rparr>\<rparr>)\<rparr>,
           Success (Some (EInt64 1))) \<and>
   database_manager open_linux_plugin = Some open_manager \<and>
   map_of [(FlString ''tableName'', FlString ''items''),
           (FlString ''data'', FlMap [(FlString ''name'', FlString ''a'')]),
           (FlString ''space'', FlString ''shop'')] (FlString ''tableName'') =
     Some (FlString ''items'') \<and>
   map_of [(FlString ''tableName'', FlString ''items''),
           (FlString ''data'', FlMap [(FlString ''name'', FlString ''a'')]),
           (FlString ''space'', FlString ''shop'')] (FlString ''data'') =
     Some (FlMap [(FlString ''name'', FlString ''a'')]) \<and>
   map_of [(FlString ''tableName'', FlString ''items''),
           (FlString ''data'', FlMap [(FlString ''name'', FlString ''a'')]),
           (FlString ''space'', FlString ''shop'')] (FlString ''space'') =
     Some (FlString ''shop'') \<and>
   handle_method_call recording_engine open_linux_plugin
     \<lparr>fl_method_call_get_name = ''insert'',
      fl_method_call_get_args =
        FlMap [(FlString ''tableName'', FlString ''items''),
               (FlString ''data'', FlMap [(FlString ''name'', FlString ''a'')]),
               (FlString ''space'', FlString ''shop'')]\<rparr> =
     Some (Inr (\<lparr>database_manager = Some (open_manager\<lparr>database_m := Some \<lparr>executed =
              [(''INSERT INTO shop_items DEFAULT VALUES'', [])]\<rparr>\<rparr>)\<rparr>,
           fl_method_success_response_new (Some (FlInt 1)))) \<and>
   map_of [(FlString ''tableName'', FlString ''items''),
           (FlString ''data'', FlMap [(FlString ''name'', FlString ''a'')])]
     (FlString ''tableName'') = Some (FlString ''items'') \<and>
   map_of [(FlString ''tableName'', FlString ''items''),
           (FlString ''data'', FlMap [(FlString ''name'', FlString ''a'')])]
     (FlString ''data'') = Some (FlMap [(FlString ''name'', FlString ''a'')]) \<and>
   map_of [(FlString ''tableName'', FlString ''items''),
           (FlString ''data'', FlMap [(FlString ''name'', FlString ''a'')])]
     (FlString ''space'') = None \<and>
   handle_method_call recording_engine open_linux_plugin
     \<lparr>fl_method_call_get_name = ''insert'',
      fl_method_call_get_args =
        FlMap [(FlString ''tableName'', FlString ''items''),
               (FlString ''data'', FlMap [(FlString ''name'', FlString ''a'')])]\<rparr> =
     Some (Inr (\<lparr>database_manager = Some (open_manager\<lparr>database_m := Some \<lparr>executed =
              [(''INSERT INTO default_items DEFAULT VALUES'', [])]\<rparr>\<rparr>)\<rparr>,
           fl_method_success_response_new (Some (FlInt 1))))"
proof -
  let ?d = "[(EString ''name'', EString ''a'')]"
  let ?fm = "[(FlString ''name'', FlString ''a'')]"
  let ?wtext = "''INSERT INTO '' @ ''shop'' @ ''_'' @ ''items'' @ '' ('' @
        fst (Insert_columns ?d True [] []) @ '') VALUES ('' @
        snd (Insert_columns ?d True [] []) @ '')''"
  let ?ltext = "''INSERT INTO '' @ ''shop'' @ ''_'' @ ''items'' @ '' DEFAULT VALUES''"
  let ?wst = "\<lparr>stmt_sql = ''INSERT INTO shop_items (name) VALUES (?)'', stmt_bound = [],
               stmt_pending = [], stmt_current = []\<rparr>"
  let ?wst' = "\<lparr>stmt_sql = ''INSERT INTO shop_items (name) VALUES (?)'',
                stmt_bound = [(1, BText ''a'')], stmt_pending = [], stmt_current = []\<rparr>"
  let ?wdb = "\<lparr>executed = [(''INSERT INTO shop_items (name) VALUES (?)'', [(1, BText ''a'')])]\<rparr>"
  let ?lst = "\<lparr>stmt_sql = ''INSERT INTO shop_items DEFAULT VALUES'', stmt_bound = [],
               stmt_pending = [], stmt_current = []\<rparr>"
  let ?ldb = "\<lparr>executed = [(''INSERT INTO shop_items DEFAULT VALUES'', [])]\<rparr>"
  let ?args = "[(EString ''data'', EMap ?d), (EString ''space'', EString ''shop''),
                (EString ''tableName'', EString ''items'')]"
  let ?args_d = "[(EString ''data'', EMap ?d), (EString ''tableName'', EString ''items'')]"
  let ?fargs = "[(FlString ''tableName'', FlString ''items''), (FlString ''data'', FlMap ?fm),
                 (FlString ''space'', FlString ''shop'')]"
  let ?fargs_d = "[(FlString ''tableName'', FlString ''items''), (FlString ''data'', FlMap ?fm)]"
  note inst = insert_targets_prefixed_table [where E = recording_engine and dm = open_manager
      and db = "\<lparr>executed = []\<rparr>" and t = "''items''" and s = "''shop''" and d = ?d
      and rc = SQLITE_OK and db_p = "\<lparr>executed = []\<rparr>" and st = ?wst
      and result = SQLITE_DONE and db_s = ?wdb and st_s = ?wst'
      and lrc = SQLITE_OK and ldb_p = "\<lparr>executed = []\<rparr>" and lst = ?lst
      and lresult = SQLITE_DONE and ldb_s = ?ldb and lst_s = ?lst and fm = ?fm
      and self = open_windows_plugin and lself = open_linux_plugin and pdm = open_manager
      and args = ?args and args_d = ?args_d and fargs = ?fargs and fargs_d = ?fargs_d
      and fd = "FlMap ?fm"]
  note dflt = insert_targets_prefixed_table [where t = "''items''" and s = "''default''"
      and d = ?d and fm = ?fm]
  have h1: "database_m open_manager = Some \<lparr>executed = []\<rparr>"
    by (simp add: open_manager_def)
  have h2: "sqlite3_prepare_v2 recording_engine \<lparr>executed = []\<rparr> ?wtext =
              (SQLITE_OK, \<lparr>executed = []\<rparr>, ?wst)"
    by (simp add: recording_engine_def rec_prepare_def verb_def)
  have h3: "sqlite3_step recording_engine \<lparr>executed = []\<rparr>
              (Insert_bind recording_engine ?wst 1 ?d) = (SQLITE_DONE, ?wdb, ?wst')"
    by (simp add: recording_engine_def rec_step_def rec_bind_def Insert_bind_value_def)
  have v1: "sqlite3_last_insert_rowid recording_engine
              (sqlite3_finalize recording_engine ?wdb ?wst') = 1"
    "sqlite3_finalize recording_engine ?wdb ?wst' = ?wdb"
    by (simp_all add: recording_engine_def verb_def)
  have h4: "sqlite3_prepare_v2 recording_engine \<lparr>executed = []\<rparr> ?ltext =
              (SQLITE_OK, \<lparr>executed = []\<rparr>, ?lst)"
    by (simp add: recording_engine_def rec_prepare_def verb_def)
  have h5: "sqlite3_step recording_engine \<lparr>executed = []\<rparr> ?lst = (SQLITE_DONE, ?ldb, ?lst)"
    by (simp add: recording_engine_def rec_step_def)
  have v2: "sqlite3_last_insert_rowid recording_engine
              (sqlite3_finalize recording_engine ?ldb ?lst) = 1"
    "sqlite3_finalize recording_engine ?ldb ?lst = ?ldb"
    by (simp_all add: recording_engine_def verb_def)
  have h6: "database_manager_m open_windows_plugin = Some open_manager"
    by (simp add: open_windows_plugin_def)
  have h7: "database_manager open_linux_plugin = Some open_manager"
    by (simp add: open_linux_plugin_def)
  have k1: "map_of ?args (EString ''tableName'') = Some (EString ''items'')"
    and k2: "map_of ?args (EString ''data'') = Some (EMap ?d)"
    and k3: "map_of ?args (EString ''space'') = Some (EString ''shop'')"
    and k4: "map_of ?args_d (EString ''tableName'') = Some (EString ''items'')"
    and k5: "map_of ?args_d (EString ''data'') = Some (EMap ?d)"
    and k6: "map_of ?args_d (EString ''space'') = None"
    and k7: "map_of ?fargs (FlString ''tableName'') = Some (FlString ''items'')"
    and k8: "map_of ?fargs (FlString ''data'') = Some (FlMap ?fm)"
    and k9: "map_of ?fargs (FlString ''space'') = Some (FlString ''shop'')"
    and k10: "map_of ?fargs_d (FlString ''tableName'') = Some (FlString ''items'')"
    and k11: "map_of ?fargs_d (FlString ''data'') = Some (FlMap ?fm)"
    and k12: "map_of ?fargs_d (FlString ''space'') = None"
    by simp_all
  from inst h1 h2 h3 v1
  have c1: "Insert_windows recording_engine open_manager ''items'' ?d ''shop'' =
              (1, open_manager\<lparr>database_m := Some ?wdb\<rparr>)"
    by simp
  from inst h1 h4 h5 v2
  have c2: "Insert_linux recording_engine open_manager ''items'' (FlMap ?fm) ''shop'' =
              (1, open_manager\<lparr>database_m := Some ?ldb\<rparr>)"
    by simp
  from dflt [THEN conjunct2, THEN conjunct2, THEN conjunct2, THEN conjunct2, THEN conjunct2,
      THEN conjunct1]
  have c1d: "Insert_windows recording_engine open_manager ''items'' ?d ''default'' =
              (1, open_manager\<lparr>database_m := Some \<lparr>executed =
                [(''INSERT INTO default_items (name) VALUES (?)'', [(1, BText ''a'')])]\<rparr>\<rparr>)"
    by (simp add: bound_of_def)
  from dflt [THEN conjunct2, THEN conjunct2, THEN conjunct2, THEN conjunct2, THEN conjunct2,
      THEN conjunct2, THEN conjunct1]
  have c2d: "Insert_linux recording_engine open_manager ''items'' (FlMap ?fm) ''default'' =
              (1, open_manager\<lparr>database_m := Some \<lparr>executed =
                [(''INSERT INTO default_items DEFAULT VALUES'', [])]\<rparr>\<rparr>)"
    by simp
  from inst h6 k1 k2 k3
  have c3: "HandleMethodCall recording_engine open_windows_plugin
              \<lparr>method_name = ''insert'', call_arguments = EMap ?args\<rparr> =
            Some (\<lparr>database_manager_m = Some (open_manager\<lparr>database_m := Some ?wdb\<rparr>)\<rparr>,
                  Success (Some (EInt64 1)))"
    by (simp add: c1 open_windows_plugin_def)
  from inst h6 k4 k5 k6
  have c4: "HandleMethodCall recording_engine open_windows_plugin
              \<lparr>method_name = ''insert'', call_arguments = EMap ?args_d\<rparr> =
            Some (\<lparr>database_manager_m = Some (open_manager\<lparr>database_m := Some \<lparr>executed =
                [(''INSERT INTO default_items (name) VALUES (?)'', [(1, BText ''a'')])]\<rparr>\<rparr>)\<rparr>,
                  Success (Some (EInt64 1)))"
    by (simp add: c1d open_windows_plugin_def)
  from inst h7 k7 k8 k9
  have c5: "handle_method_call recording_engine open_linux_plugin
              \<lparr>fl_method_call_get_name = ''insert'', fl_method_call_get_args = FlMap ?fargs\<rparr> =
            Some (Inr (\<lparr>database_manager = Some (open_manager\<lparr>database_m := Some ?ldb\<rparr>)\<rparr>,
                       fl_method_success_response_new (Some (FlInt 1))))"
    by (simp add: c2 open_linux_plugin_def)
  from inst h7 k10 k11 k12
  have c6: "handle_method_call recording_engine open_linux_plugin
              \<lparr>fl_method_call_get_name = ''insert'', fl_method_call_get_args = FlMap ?fargs_d\<rparr> =
            Some (Inr (\<lparr>database_manager = Some (open_manager\<lparr>database_m := Some \<lparr>executed =
                [(''INSERT INTO default_items DEFAULT VALUES'', [])]\<rparr>\<rparr>)\<rparr>,
                       fl_method_success_response_new (Some (FlInt 1))))"
    by (simp add: c2d open_linux_plugin_def)
  show ?thesis
    by (intro conjI)
       (rule h1 h2 h3 c1 h4 h5 c2 h6 k1 k2 k3 c3 k4 k5 k6 c4 h7 k7 k8 k9 c5 k10 k11 k12 c6)+
qed




text \<open>
  On Linux a \<open>space\<close> that is present and is not a text is outside the statement
  above: the handler builds a \<open>std::string\<close> from the null pointer that
  \<open>fl_value_get_string\<close> answers, whatever the other arguments are.
\<close>

lemma handle_method_call_insert_space_not_text:
  assumes "database_manager lself = Some dm"
    and "map_of fargs (FlString ''tableName'') = Some tv"
    and "map_of fargs (FlString ''data'') = Some fdata"
    and "map_of fargs (FlString ''space'') = Some sv"
    and "fl_value_get_string sv = None"
  shows "handle_method_call E lself
           \<lparr>fl_method_call_get_name = ''insert'', fl_method_call_get_args = FlMap fargs\<rparr> =
         Some (Inl NullString)"
  using assms
  by (simp add: handle_method_call_def handle_method_call_insert_def fl_value_lookup_string_def
      split: option.splits)


subsection \<open>Query on Windows\<close>










subsection \<open>Query on Linux\<close>

lemma fl_value_unref_fault: "fl_value_unref p = Inl f \<Longrightarrow> f = UseAfterFree"
  by (auto simp: fl_value_unref_def split: owned.splits if_splits)

lemma fl_value_unref_entries_fault: "fl_value_unref_entries m = Inl f \<Longrightarrow> f = UseAfterFree"
  by (induction m) (auto split: sum.splits)

lemma fl_value_lookup_index_fault: "fl_value_lookup_index m key = Inl f \<Longrightarrow> f = UseAfterFree"
  by (induction m) (auto split: sum.splits owned.splits if_splits option.splits)

lemma fl_value_read_rows_fault: "fl_value_read_rows rs = Inl f \<Longrightarrow> f = UseAfterFree"
  by (induction rs) (auto split: sum.splits owned.splits)

text \<open>
  The column loop on Linux. After its first turn the row holds two released
  pointers; the second turn compares its key with the released one. So one column
  leaves a row of released pointers, and two or more are a use after free.
\<close>

lemma Query_columns_linux_cases:
  "Query_columns_linux E st 0 n [] =
     (if n \<le> 0 then Inr [] else if n = 1 then Inr [(Released, Released)]
      else Inl UseAfterFree)"
proof -
  have one: "0 < n \<Longrightarrow> Query_columns_linux E st 0 n [] =
               Query_columns_linux E st 1 n [(Released, Released)]"
    by (subst Query_columns_linux.simps)
       (simp add: fl_value_set_take_def fl_value_new_def autoptr_cleanup_pair_def
         fl_value_unref_def)
  have two: "1 < n \<Longrightarrow> Query_columns_linux E st 1 n [(Released, Released)] = Inl UseAfterFree"
    by (subst Query_columns_linux.simps)
       (simp add: fl_value_set_take_def fl_value_new_def)
  show ?thesis
  proof (cases "n \<le> 0")
    case True
    then show ?thesis by (simp add: Query_columns_linux.simps [of E st 0])
  next
    case False
    then show ?thesis
      using one two by (cases "n = 1") (simp_all add: Query_columns_linux.simps [of E st 1])
  qed
qed

lemma Query_columns_linux_fault:
  "Query_columns_linux E st i n row = Inl f \<Longrightarrow> f = UseAfterFree"
proof (induction E st i n row rule: Query_columns_linux.induct)
  case (1 E st i n row)
  show ?case
  proof (cases "i < n")
    case False
    with "1.prems" show ?thesis by (simp add: Query_columns_linux.simps [of E st i])
  next
    case True
    show ?thesis
      using "1.prems" "1.IH" True
      apply (subst (asm) Query_columns_linux.simps)
      apply (auto simp: Let_def fl_value_set_take_def fl_value_new_def autoptr_cleanup_pair_def
          split: sum.splits prod.splits option.splits owned.splits if_splits
          dest: fl_value_lookup_index_fault fl_value_unref_entries_fault)
      done
  qed
qed

lemma autoptr_cleanup_row_fault: "autoptr_cleanup_row rs = Inl f \<Longrightarrow> f = UseAfterFree"
  by (auto simp: autoptr_cleanup_row_def fl_value_unref_map_def
      split: sum.splits owned.splits if_splits dest: fl_value_unref_entries_fault)

lemma Query_rows_linux_fault:
  "Query_rows_linux E db st results = Some (Inl f) \<Longrightarrow> f = UseAfterFree"
proof -
  assume q: "Query_rows_linux E db st results = Some (Inl f)"
  have "\<forall>g. Inl f = (Inl g :: fault + FlRow owned list \<times> 'a \<times> 'b) \<longrightarrow> g = UseAfterFree"
  proof (rule Query_rows_linux.raw_induct
      [where P = "\<lambda>E db st results y. \<forall>g. y = Inl g \<longrightarrow> g = UseAfterFree", OF _ q])
    fix rec :: "('a, 'b) sqlite3 \<Rightarrow> 'a \<Rightarrow> 'b \<Rightarrow> FlRow owned list
                  \<Rightarrow> (fault + FlRow owned list \<times> 'a \<times> 'b) option"
      and E db st results y
    assume ih: "\<And>db st results E y. rec db st results E = Some y \<Longrightarrow>
                  \<forall>g. y = Inl g \<longrightarrow> g = UseAfterFree"
      and body: "(case sqlite3_step E db st of
        (rc, db', st') \<Rightarrow>
          if rc = SQLITE_ROW
          then (case Query_columns_linux E st' 0 (sqlite3_column_count E st') [] of
                  Inl f \<Rightarrow> Some (Inl f)
                | Inr entries \<Rightarrow>
                    (case autoptr_cleanup_row
                            (fl_value_append_take results (fl_value_new entries)) of
                       Inl f \<Rightarrow> Some (Inl f)
                     | Inr results' \<Rightarrow> rec E db' st' results'))
          else Some (Inr (results, db', st'))) = Some y"
    obtain rc db' st' where step: "sqlite3_step E db st = (rc, db', st')"
      by (cases "sqlite3_step E db st")
    show "\<forall>g. y = Inl g \<longrightarrow> g = UseAfterFree"
    proof (cases "rc = SQLITE_ROW")
      case False
      with body step show ?thesis by auto
    next
      case True
      show ?thesis
      proof (cases "Query_columns_linux E st' 0 (sqlite3_column_count E st') []")
        case (Inl h)
        with body step True Query_columns_linux_fault [OF Inl] show ?thesis by auto
      next
        case (Inr entries)
        show ?thesis
        proof (cases "autoptr_cleanup_row (fl_value_append_take results (fl_value_new entries))")
          case (Inl h)
          with body step True Inr autoptr_cleanup_row_fault [OF Inl] show ?thesis by auto
        next
          case (Inr results')
          with body step True \<open>Query_columns_linux E st' 0 (sqlite3_column_count E st') [] =
              Inr entries\<close>
          have "rec E db' st' results' = Some y" by simp
          then show ?thesis by (rule ih)
        qed
      qed
    qed
  qed
  then show "f = UseAfterFree" by simp
qed

lemma Query_linux_fault: "Query_linux E dm sql = Some (Inl f) \<Longrightarrow> f = UseAfterFree"
  by (auto simp: Query_linux_def split: option.splits prod.splits if_splits sum.splits
      dest: Query_rows_linux_fault)

lemma Query_rows_linux_no_row:
  "sqlite3_step E db st = (rc, db', st') \<Longrightarrow> rc \<noteq> SQLITE_ROW \<Longrightarrow>
   Query_rows_linux E db st acc = Some (Inr (acc, db', st'))"
  by (subst Query_rows_linux.simps) simp

text \<open>
  A first row with at least one column ends the Linux \<open>Query\<close> in a use after free:
  with two or more columns in the column loop, with one column when the row is
  released, since the row then drops a reference of its released key.
\<close>

lemma Query_rows_linux_row:
  assumes "sqlite3_step E db st = (SQLITE_ROW, db', st')"
    and "1 \<le> sqlite3_column_count E st'"
  shows "Query_rows_linux E db st results = Some (Inl UseAfterFree)"
proof (cases "sqlite3_column_count E st' = 1")
  case True
  then show ?thesis
    using assms(1)
    by (subst Query_rows_linux.simps)
       (simp add: Query_columns_linux_cases autoptr_cleanup_row_def fl_value_append_take_def
         fl_value_new_def fl_value_unref_map_def fl_value_unref_def)
next
  case False
  with assms(2) show ?thesis
    using assms(1)
    by (subst Query_rows_linux.simps) (simp add: Query_columns_linux_cases)
qed

lemma Query_linux_row:
  assumes "database_m dm = Some db"
    and "sqlite3_prepare_v2 E db sql = (SQLITE_OK, db_p, st)"
    and "sqlite3_step E db_p st = (SQLITE_ROW, db_s, st_s)"
    and "1 \<le> sqlite3_column_count E st_s"
  shows "Query_linux E dm sql = Some (Inl UseAfterFree)"
  using assms(1,2) Query_rows_linux_row [OF assms(3,4), of "[]"]
  by (simp add: Query_linux_def)

subsection \<open>What a query answers\<close>

lemma recording_engine_entries:
  "sqlite3_prepare_v2 recording_engine = rec_prepare"
  "sqlite3_step recording_engine = rec_step"
  "sqlite3_finalize recording_engine db st = db"
  "sqlite3_column_count recording_engine st = int (length (stmt_current st))"
  "sqlite3_column_name recording_engine st i = cell_name (column_cell st i)"
  "sqlite3_column_type recording_engine st i = cell_type (column_cell st i)"
  "sqlite3_column_int64 recording_engine st i = cell_int64 (column_cell st i)"
  "sqlite3_column_double recording_engine st i = cell_double (column_cell st i)"
  "sqlite3_column_text recording_engine st i = cell_text (column_cell st i)"
  by (simp_all add: recording_engine_def)




text \<open>
  What the Linux \<open>Query\<close> does with the two rows of \<open>SELECT * FROM default_items\<close>:
  the first row has four columns, and the second turn of the column loop reads the
  key that the first turn released.
\<close>

lemma Query_linux_demo_rows:
  "Query_linux recording_engine open_manager ''SELECT * FROM default_items'' =
     Some (Inl UseAfterFree)"
proof -
  let ?sql = "''SELECT * FROM default_items''"
  let ?st = "\<lparr>stmt_sql = ?sql, stmt_bound = [], stmt_pending = demo_rows, stmt_current = []\<rparr>"
  let ?s1 = "\<lparr>stmt_sql = ?sql, stmt_bound = [], stmt_pending = tl demo_rows,
              stmt_current = hd demo_rows\<rparr>"
  have h1: "database_m open_manager = Some \<lparr>executed = []\<rparr>"
    by (simp add: open_manager_def)
  have h2: "sqlite3_prepare_v2 recording_engine \<lparr>executed = []\<rparr> ?sql =
              (SQLITE_OK, \<lparr>executed = []\<rparr>, ?st)"
    by (simp add: recording_engine_entries rec_prepare_def verb_def)
  have h3: "sqlite3_step recording_engine \<lparr>executed = []\<rparr> ?st =
              (SQLITE_ROW, \<lparr>executed = []\<rparr>, ?s1)"
    by (simp add: recording_engine_entries rec_step_def demo_rows_def)
  have h4: "1 \<le> sqlite3_column_count recording_engine ?s1"
    by (simp add: recording_engine_entries demo_rows_def)
  show ?thesis
    by (rule Query_linux_row [OF h1 h2 h3 h4])
qed

lemma Query_rows_windows_no_row:
  "sqlite3_step E db st = (rc, db', st') \<Longrightarrow> rc \<noteq> SQLITE_ROW \<Longrightarrow>
   Query_rows_windows E db st acc = Some (acc, db', st')"
  by (subst Query_rows_windows.simps) simp

lemma HandleMethodCall_query_open:
  "database_manager_m self = Some dm \<Longrightarrow>
   map_of args (EString ''sql'') = Some (EString sql) \<Longrightarrow>
   HandleMethodCall E self \<lparr>method_name = ''query'', call_arguments = EMap args\<rparr> =
     (case Query_windows E dm sql of
        None \<Rightarrow> None
      | Some (query_result, dm') \<Rightarrow>
          Some (self\<lparr>database_manager_m := Some dm'\<rparr>, Success (Some (EList query_result))))"
  by (simp add: HandleMethodCall_def HandleMethodCall_query_def)

lemma handle_method_call_query_open:
  "database_manager lself = Some dm \<Longrightarrow>
   map_of fargs (FlString ''sql'') = Some (FlString sql) \<Longrightarrow>
   handle_method_call E lself
       \<lparr>fl_method_call_get_name = ''query'', fl_method_call_get_args = FlMap fargs\<rparr> =
     (case Query_linux E dm sql of
        None \<Rightarrow> None
      | Some (Inl f) \<Rightarrow> Some (Inl f)
      | Some (Inr (results, dm')) \<Rightarrow>
          (case fl_value_read_rows results of
             Inl f \<Rightarrow> Some (Inl f)
           | Inr rows \<Rightarrow>
               Some (Inr (lself\<lparr>database_manager := Some dm'\<rparr>,
                          fl_method_success_response_new (Some (FlList rows))))))"
  by (simp add: handle_method_call_def handle_method_call_query_def fl_value_lookup_string_def
      fl_value_get_string_def)

text \<open>
  C3: a \<open>query\<close> on an initialized plugin, with a text for its \<open>sql\<close> argument, is
  never answered with an error: if the call returns, the answer is success with a
  list (on Linux the call may also end in a use after free, which is no answer).
  When the engine refuses to prepare the text the list is empty, and when the
  text is prepared and the first step reports no row the list is empty as well,
  so the caller receives the same answer in both cases. This holds on both
  platforms.
\<close>

theorem Query_swallows_failure:
  "(database_manager_m self = Some dm \<and> map_of args (EString ''sql'') = Some (EString sql) \<longrightarrow>
      HandleMethodCall E self \<lparr>method_name = ''query'', call_arguments = EMap args\<rparr> = None \<or>
      (\<exists>self' rows.
         HandleMethodCall E self \<lparr>method_name = ''query'', call_arguments = EMap args\<rparr> =
           Some (self', Success (Some (EList rows))))) \<and>
   (database_manager_m self = Some dm \<and> map_of args (EString ''sql'') = Some (EString sql) \<and>
    database_m dm = Some db \<and> sqlite3_prepare_v2 E db sql = (rc, db_p, st) \<and>
    rc \<noteq> SQLITE_OK \<longrightarrow>
      Query_windows E dm sql = Some ([], dm\<lparr>database_m := Some db_p\<rparr>) \<and>
      HandleMethodCall E self \<lparr>method_name = ''query'', call_arguments = EMap args\<rparr> =
        Some (self\<lparr>database_manager_m := Some (dm\<lparr>database_m := Some db_p\<rparr>)\<rparr>,
              Success (Some (EList [])))) \<and>
   (database_manager_m self = Some dm \<and> map_of args (EString ''sql'') = Some (EString sql) \<and>
    database_m dm = Some db \<and> sqlite3_prepare_v2 E db sql = (SQLITE_OK, db_p, st) \<and>
    sqlite3_step E db_p st = (rc_s, db_s, st_s) \<and> rc_s \<noteq> SQLITE_ROW \<longrightarrow>
      Query_windows E dm sql =
        Some ([], dm\<lparr>database_m := Some (sqlite3_finalize E db_s st_s)\<rparr>) \<and>
      HandleMethodCall E self \<lparr>method_name = ''query'', call_arguments = EMap args\<rparr> =
        Some (self\<lparr>database_manager_m :=
                     Some (dm\<lparr>database_m := Some (sqlite3_finalize E db_s st_s)\<rparr>)\<rparr>,
              Success (Some (EList [])))) \<and>
   (database_manager lself = Some dm \<and> map_of fargs (FlString ''sql'') = Some (FlString sql) \<longrightarrow>
      handle_method_call E lself
          \<lparr>fl_method_call_get_name = ''query'', fl_method_call_get_args = FlMap fargs\<rparr> = None \<or>
      handle_method_call E lself
          \<lparr>fl_method_call_get_name = ''query'', fl_method_call_get_args = FlMap fargs\<rparr> =
        Some (Inl UseAfterFree) \<or>
      (\<exists>lself' rows.
         handle_method_call E lself
             \<lparr>fl_method_call_get_name = ''query'', fl_method_call_get_args = FlMap fargs\<rparr> =
           Some (Inr (lself', fl_method_success_response_new (Some (FlList rows)))))) \<and>
   (database_manager lself = Some dm \<and> map_of fargs (FlString ''sql'') = Some (FlString sql) \<and>
    database_m dm = Some db \<and> sqlite3_prepare_v2 E db sql = (rc, db_p, st) \<and>
    rc \<noteq> SQLITE_OK \<longrightarrow>
      Query_linux E dm sql = Some (Inr ([], dm\<lparr>database_m := Some db_p\<rparr>)) \<and>
      handle_method_call E lself
          \<lparr>fl_method_call_get_name = ''query'', fl_method_call_get_args = FlMap fargs\<rparr> =
        Some (Inr (lself\<lparr>database_manager := Some (dm\<lparr>database_m := Some db_p\<rparr>)\<rparr>,
                   fl_method_success_response_new (Some (FlList []))))) \<and>
   (database_manager lself = Some dm \<and> map_of fargs (FlString ''sql'') = Some (FlString sql) \<and>
    database_m dm = Some db \<and> sqlite3_prepare_v2 E db sql = (SQLITE_OK, db_p, st) \<and>
    sqlite3_step E db_p st = (rc_s, db_s, st_s) \<and> rc_s \<noteq> SQLITE_ROW \<longrightarrow>
      Query_linux E dm sql =
        Some (Inr ([], dm\<lparr>database_m := Some (sqlite3_finalize E db_s st_s)\<rparr>)) \<and>
      handle_method_call E lself
          \<lparr>fl_method_call_get_name = ''query'', fl_method_call_get_args = FlMap fargs\<rparr> =
        Some (Inr (lself\<lparr>database_manager :=
                          Some (dm\<lparr>database_m := Some (sqlite3_finalize E db_s st_s)\<rparr>)\<rparr>,
                   fl_method_success_response_new (Some (FlList [])))))"
proof (intro conjI impI; (elim conjE)?)
  assume "database_manager_m self = Some dm" "map_of args (EString ''sql'') = Some (EString sql)"
  then show "HandleMethodCall E self \<lparr>method_name = ''query'', call_arguments = EMap args\<rparr> = None \<or>
      (\<exists>self' rows.
         HandleMethodCall E self \<lparr>method_name = ''query'', call_arguments = EMap args\<rparr> =
           Some (self', Success (Some (EList rows))))"
    by (cases "Query_windows E dm sql") (auto simp: HandleMethodCall_query_open)
next
  assume "database_manager lself = Some dm" "map_of fargs (FlString ''sql'') = Some (FlString sql)"
  then show "handle_method_call E lself
          \<lparr>fl_method_call_get_name = ''query'', fl_method_call_get_args = FlMap fargs\<rparr> = None \<or>
      handle_method_call E lself
          \<lparr>fl_method_call_get_name = ''query'', fl_method_call_get_args = FlMap fargs\<rparr> =
        Some (Inl UseAfterFree) \<or>
      (\<exists>lself' rows.
         handle_method_call E lself
             \<lparr>fl_method_call_get_name = ''query'', fl_method_call_get_args = FlMap fargs\<rparr> =
           Some (Inr (lself', fl_method_success_response_new (Some (FlList rows)))))"
    by (auto simp: handle_method_call_query_open split: option.splits sum.splits prod.splits
        dest: Query_linux_fault fl_value_read_rows_fault)
qed (simp_all add: HandleMethodCall_query_open handle_method_call_query_open Query_windows_def
      Query_linux_def Query_rows_windows_no_row Query_rows_linux_no_row)

theorem Query_swallows_failure_witness:
  "database_manager_m open_windows_plugin = Some open_manager \<and>
   database_manager open_linux_plugin = Some open_manager \<and>
   database_m open_manager = Some \<lparr>executed = []\<rparr> \<and>
   map_of [(EString ''sql'', EString ''SELEC'')] (EString ''sql'') = Some (EString ''SELEC'') \<and>
   map_of [(FlString ''sql'', FlString ''SELEC'')] (FlString ''sql'') = Some (FlString ''SELEC'') \<and>
   sqlite3_prepare_v2 recording_engine \<lparr>executed = []\<rparr> ''SELEC'' =
     (1, \<lparr>executed = []\<rparr>,
      \<lparr>stmt_sql = [], stmt_bound = [], stmt_pending = [], stmt_current = []\<rparr>) \<and>
   (1::int) \<noteq> SQLITE_OK \<and>
   HandleMethodCall recording_engine open_windows_plugin
       \<lparr>method_name = ''query'', call_arguments = EMap [(EString ''sql'', EString ''SELEC'')]\<rparr> =
     Some (open_windows_plugin, Success (Some (EList []))) \<and>
   handle_method_call recording_engine open_linux_plugin
       \<lparr>fl_method_call_get_name = ''query'',
        fl_method_call_get_args = FlMap [(FlString ''sql'', FlString ''SELEC'')]\<rparr> =
     Some (Inr (open_linux_plugin, fl_method_success_response_new (Some (FlList [])))) \<and>
   map_of [(EString ''sql'', EString ''SELECT * FROM other'')] (EString ''sql'') =
     Some (EString ''SELECT * FROM other'') \<and>
   map_of [(FlString ''sql'', FlString ''SELECT * FROM other'')] (FlString ''sql'') =
     Some (FlString ''SELECT * FROM other'') \<and>
   sqlite3_prepare_v2 recording_engine \<lparr>executed = []\<rparr> ''SELECT * FROM other'' =
     (SQLITE_OK, \<lparr>executed = []\<rparr>,
      \<lparr>stmt_sql = ''SELECT * FROM other'', stmt_bound = [], stmt_pending = [],
       stmt_current = []\<rparr>) \<and>
   sqlite3_step recording_engine \<lparr>executed = []\<rparr>
       \<lparr>stmt_sql = ''SELECT * FROM other'', stmt_bound = [], stmt_pending = [],
        stmt_current = []\<rparr> =
     (SQLITE_DONE, \<lparr>executed = [(''SELECT * FROM other'', [])]\<rparr>,
      \<lparr>stmt_sql = ''SELECT * FROM other'', stmt_bound = [], stmt_pending = [],
       stmt_current = []\<rparr>) \<and>
   SQLITE_DONE \<noteq> SQLITE_ROW \<and>
   HandleMethodCall recording_engine open_windows_plugin
       \<lparr>method_name = ''query'',
        call_arguments = EMap [(EString ''sql'', EString ''SELECT * FROM other'')]\<rparr> =
     Some (\<lparr>database_manager_m = Some (open_manager\<lparr>database_m :=
               Some \<lparr>executed = [(''SELECT * FROM other'', [])]\<rparr>\<rparr>)\<rparr>,
           Success (Some (EList []))) \<and>
   handle_method_call recording_engine open_linux_plugin
       \<lparr>fl_method_call_get_name = ''query'',
        fl_method_call_get_args = FlMap [(FlString ''sql'', FlString ''SELECT * FROM other'')]\<rparr> =
     Some (Inr (\<lparr>database_manager = Some (open_manager\<lparr>database_m :=
                    Some \<lparr>executed = [(''SELECT * FROM other'', [])]\<rparr>\<rparr>)\<rparr>,
                fl_method_success_response_new (Some (FlList []))))"
proof -
  let ?bad = "''SELEC''" and ?sql = "''SELECT * FROM other''"
  let ?null = "\<lparr>stmt_sql = [], stmt_bound = [], stmt_pending = [], stmt_current = []\<rparr>"
  let ?st = "\<lparr>stmt_sql = ?sql, stmt_bound = [], stmt_pending = [], stmt_current = []\<rparr>"
  let ?db = "\<lparr>executed = [(?sql, [])]\<rparr>"
  have w: "database_manager_m open_windows_plugin = Some open_manager"
    by (simp add: open_windows_plugin_def)
  have l: "database_manager open_linux_plugin = Some open_manager"
    by (simp add: open_linux_plugin_def)
  have d: "database_m open_manager = Some \<lparr>executed = []\<rparr>"
    by (simp add: open_manager_def)
  have ka: "map_of [(EString ''sql'', EString ?bad)] (EString ''sql'') = Some (EString ?bad)"
    and kb: "map_of [(FlString ''sql'', FlString ?bad)] (FlString ''sql'') = Some (FlString ?bad)"
    and kc: "map_of [(EString ''sql'', EString ?sql)] (EString ''sql'') = Some (EString ?sql)"
    and kd: "map_of [(FlString ''sql'', FlString ?sql)] (FlString ''sql'') = Some (FlString ?sql)"
    by simp_all
  have p1: "sqlite3_prepare_v2 recording_engine \<lparr>executed = []\<rparr> ?bad =
              (1, \<lparr>executed = []\<rparr>, ?null)"
    by (simp add: recording_engine_entries rec_prepare_def verb_def)
  have p2: "sqlite3_prepare_v2 recording_engine \<lparr>executed = []\<rparr> ?sql =
              (SQLITE_OK, \<lparr>executed = []\<rparr>, ?st)"
    by (simp add: recording_engine_entries rec_prepare_def verb_def)
  have s2: "sqlite3_step recording_engine \<lparr>executed = []\<rparr> ?st = (SQLITE_DONE, ?db, ?st)"
    by (simp add: recording_engine_entries rec_step_def)
  have n1: "(1::int) \<noteq> SQLITE_OK" and n2: "SQLITE_DONE \<noteq> SQLITE_ROW"
    by simp_all
  note bad = Query_swallows_failure [where E = recording_engine and self = open_windows_plugin
      and lself = open_linux_plugin and dm = open_manager and db = "\<lparr>executed = []\<rparr>"
      and sql = ?bad and args = "[(EString ''sql'', EString ?bad)]"
      and fargs = "[(FlString ''sql'', FlString ?bad)]" and rc = 1
      and db_p = "\<lparr>executed = []\<rparr>" and st = ?null]
  note good = Query_swallows_failure [where E = recording_engine and self = open_windows_plugin
      and lself = open_linux_plugin and dm = open_manager and db = "\<lparr>executed = []\<rparr>"
      and sql = ?sql and args = "[(EString ''sql'', EString ?sql)]"
      and fargs = "[(FlString ''sql'', FlString ?sql)]"
      and db_p = "\<lparr>executed = []\<rparr>" and st = ?st and rc_s = SQLITE_DONE and db_s = ?db
      and st_s = ?st]
  from bad w d ka p1 n1
  have c1: "HandleMethodCall recording_engine open_windows_plugin
       \<lparr>method_name = ''query'', call_arguments = EMap [(EString ''sql'', EString ?bad)]\<rparr> =
     Some (open_windows_plugin, Success (Some (EList [])))"
    by (simp add: open_windows_plugin_def open_manager_def)
  from bad l d kb p1 n1
  have c2: "handle_method_call recording_engine open_linux_plugin
       \<lparr>fl_method_call_get_name = ''query'',
        fl_method_call_get_args = FlMap [(FlString ''sql'', FlString ?bad)]\<rparr> =
     Some (Inr (open_linux_plugin, fl_method_success_response_new (Some (FlList []))))"
    by (simp add: open_linux_plugin_def open_manager_def)
  from good w d kc p2 s2 n2
  have c3: "HandleMethodCall recording_engine open_windows_plugin
       \<lparr>method_name = ''query'', call_arguments = EMap [(EString ''sql'', EString ?sql)]\<rparr> =
     Some (\<lparr>database_manager_m = Some (open_manager\<lparr>database_m := Some ?db\<rparr>)\<rparr>,
           Success (Some (EList [])))"
    by (simp add: open_windows_plugin_def recording_engine_entries)
  from good l d kd p2 s2 n2
  have c4: "handle_method_call recording_engine open_linux_plugin
       \<lparr>fl_method_call_get_name = ''query'',
        fl_method_call_get_args = FlMap [(FlString ''sql'', FlString ?sql)]\<rparr> =
     Some (Inr (\<lparr>database_manager = Some (open_manager\<lparr>database_m := Some ?db\<rparr>)\<rparr>,
                fl_method_success_response_new (Some (FlList []))))"
    by (simp add: open_linux_plugin_def recording_engine_entries)
  show ?thesis
    by (intro conjI) (rule w l d ka kb kc kd p1 p2 s2 n1 n2 c1 c2 c3 c4)+
qed

end
